theory Spec2Isabelle
  imports Main "HOL-Library.Sublist"
begin

section \<open>Library routines the two front-ends rely on\<close>

text \<open>
  The debugger front-ends (\<^verbatim>\<open>RDIP.cpp\<close>, the XML-over-TCP server, and
  \<^verbatim>\<open>ConsoleUI.cpp\<close>, the text console) are written against \<^verbatim>\<open>std::regex\<close>,
  \<^verbatim>\<open>boost::lexical_cast\<close>, \<^verbatim>\<open>boost::replace_all\<close>, \<^verbatim>\<open>atoi\<close> and \<^verbatim>\<open>sscanf\<close>.
  This section gives those routines as executable HOL functions; strings are byte
  strings (\<^typ>\<open>string\<close>), as \<^verbatim>\<open>std::string\<close> is.
\<close>

subsection \<open>Character classes\<close>

definition is_space :: "char \<Rightarrow> bool" where
  \<comment> \<open>\<^verbatim>\<open>\s\<close> and \<^verbatim>\<open>isspace\<close> in the "C" locale: space, \<^verbatim>\<open>\t \n \v \f \r\<close>.\<close>
  "is_space c \<longleftrightarrow> c \<in> set [CHR '' '', CHR 0x09, CHR 0x0A, CHR 0x0B, CHR 0x0C, CHR 0x0D]"

definition is_digit :: "char \<Rightarrow> bool" where
  "is_digit c \<longleftrightarrow> c \<in> set ''0123456789''"

datatype cclass =
    Lit char              \<comment> \<open>an ordinary character\<close>
  | Space                 \<comment> \<open>\<^verbatim>\<open>\s\<close>\<close>
  | Digit                 \<comment> \<open>\<^verbatim>\<open>\d\<close> and \<^verbatim>\<open>[0-9]\<close>\<close>
  | NoneOf "char list"    \<comment> \<open>a negated bracket expression such as \<^verbatim>\<open>[^.:]\<close>\<close>
  | Dot                   \<comment> \<open>\<^verbatim>\<open>.\<close>: everything but a line terminator\<close>

fun accepts :: "cclass \<Rightarrow> char \<Rightarrow> bool" where
  "accepts (Lit a) c = (c = a)"
| "accepts Space c = is_space c"
| "accepts Digit c = is_digit c"
| "accepts (NoneOf xs) c = (c \<notin> set xs)"
| "accepts Dot c = (c \<noteq> CHR 0x0A \<and> c \<noteq> CHR 0x0D)"

subsection \<open>Regular expressions (ECMAScript grammar of \<^verbatim>\<open>std::regex\<close>)\<close>

text \<open>
  Only the constructs that occur in the two sources are modelled: atoms, the anchors
  \<^verbatim>\<open>^\<close> and \<^verbatim>\<open>$\<close> (start and end of the subject; the default flags are used
  everywhere, so there is no multi-line mode), concatenation, the greedy quantifiers
  \<^verbatim>\<open>?\<close>, \<^verbatim>\<open>*\<close>, \<^verbatim>\<open>+\<close>, and capturing groups. A non-capturing group
  \<^verbatim>\<open>(?:...)\<close> is plain nesting.
\<close>

datatype regex =
    Eps
  | Atom cclass
  | Bol
  | Eol
  | Seq regex regex
  | Opt regex
  | Star regex
  | Group nat regex

definition Plus :: "regex \<Rightarrow> regex" where
  "Plus p = Seq p (Star p)"

fun seqs :: "regex list \<Rightarrow> regex" where
  "seqs [] = Eps"
| "seqs [r] = r"
| "seqs (r # rs) = Seq r (seqs rs)"

definition chr :: "char \<Rightarrow> regex" where
  "chr c = Atom (Lit c)"

definition lit :: "string \<Rightarrow> regex" where
  "lit s = seqs (map chr s)"

text \<open>
  A matcher state is the number of characters before the current position, the rest of
  the subject, and the sub-matches recorded so far (the latest in front). \<open>rmatch\<close> lists every way the
  expression can match at the current position, in the order a backtracking matcher
  tries them (greedy quantifiers take the longer alternative first). An iteration of
  \<^verbatim>\<open>*\<close> that consumes nothing is not repeated.
\<close>

type_synonym smatch = "(nat \<times> string) list"
type_synonym mstate = "nat \<times> string \<times> smatch"

function rmatch :: "regex \<Rightarrow> mstate \<Rightarrow> mstate list" where
  "rmatch Eps st = [st]"
| "rmatch (Atom a) (k, s, cs) =
     (case s of [] \<Rightarrow> [] | c # t \<Rightarrow> if accepts a c then [(Suc k, t, cs)] else [])"
| "rmatch Bol (k, s, cs) = (if k = 0 then [(k, s, cs)] else [])"
| "rmatch Eol (k, s, cs) = (if s = [] then [(k, s, cs)] else [])"
| "rmatch (Seq p q) st = concat (map (rmatch q) (rmatch p st))"
| "rmatch (Opt p) st = rmatch p st @ [st]"
| "rmatch (Star p) (k, s, cs) =
     concat (map (rmatch (Star p))
       (filter (\<lambda>st'. length (fst (snd st')) < length s) (rmatch p (k, s, cs))))
     @ [(k, s, cs)]"
| "rmatch (Group n p) (k, s, cs) =
     map (\<lambda>(k', s', cs'). (k', s', (n, take (k' - k) s) # cs')) (rmatch p (k, s, cs))"
  by pat_completeness auto
termination
  by (relation "measures [\<lambda>(r, st). size r, \<lambda>(r, st). length (fst (snd st))]") auto

fun mark_count :: "regex \<Rightarrow> nat" where
  "mark_count (Seq p q) = mark_count p + mark_count q"
| "mark_count (Opt p) = mark_count p"
| "mark_count (Star p) = mark_count p"
| "mark_count (Group n p) = Suc (mark_count p)"
| "mark_count _ = 0"

record match_results =
  what :: smatch     \<comment> \<open>the sub-matches, \<open>0\<close> being the whole match\<close>
  suffix :: string   \<comment> \<open>the text after the match\<close>

definition sub :: "match_results \<Rightarrow> nat \<Rightarrow> string" where
  \<comment> \<open>\<^verbatim>\<open>what[i]\<close> converted to a string: a group that took no part gives the empty string.\<close>
  "sub m i = (case map_of (what m) i of None \<Rightarrow> [] | Some w \<Rightarrow> w)"

definition match_size :: "regex \<Rightarrow> nat" where
  \<comment> \<open>\<^verbatim>\<open>what.size()\<close> after a successful match: one more than the number of groups.\<close>
  "match_size r = Suc (mark_count r)"

definition regex_match :: "string \<Rightarrow> regex \<Rightarrow> match_results option" where
  \<comment> \<open>\<^verbatim>\<open>regex_match\<close>: the expression has to match the whole subject.\<close>
  "regex_match s r =
     (case filter (\<lambda>st. fst (snd st) = []) (rmatch (Group 0 r) (0, s, [])) of
        [] \<Rightarrow> None
      | (k, t, cs) # _ \<Rightarrow> Some \<lparr>what = cs, suffix = t\<rparr>)"

fun search_from :: "nat \<Rightarrow> string \<Rightarrow> regex \<Rightarrow> match_results option" where
  "search_from k s r =
     (case rmatch (Group 0 r) (k, s, []) of
        (k', t, cs) # _ \<Rightarrow> Some \<lparr>what = cs, suffix = t\<rparr>
      | [] \<Rightarrow> (case s of [] \<Rightarrow> None | c # s' \<Rightarrow> search_from (Suc k) s' r))"

definition regex_search :: "string \<Rightarrow> regex \<Rightarrow> match_results option" where
  \<comment> \<open>\<^verbatim>\<open>regex_search\<close>: the leftmost position at which the expression matches.\<close>
  "regex_search s r = search_from 0 s r"

subsection \<open>String replacement\<close>

function replace_all :: "string \<Rightarrow> string \<Rightarrow> string \<Rightarrow> string" where
  \<comment> \<open>\<^verbatim>\<open>boost::replace_all\<close>: every occurrence of \<open>search\<close>, left to right, without overlap.\<close>
  "replace_all [] search fmt = []"
| "replace_all (c # cs) search fmt =
     (if search \<noteq> [] \<and> prefix search (c # cs)
      then fmt @ replace_all (drop (length search) (c # cs)) search fmt
      else c # replace_all cs search fmt)"
  by pat_completeness auto
termination
  by (relation "measure (\<lambda>(s, search, fmt). length s)") auto

subsection \<open>Numbers and text\<close>

datatype error =
    bad_lexical_cast    \<comment> \<open>the exception \<^verbatim>\<open>boost::bad_lexical_cast\<close>\<close>
  | atoi_out_of_range   \<comment> \<open>\<^verbatim>\<open>atoi\<close> on a value that \<^verbatim>\<open>int\<close> cannot hold: undefined in C\<close>

definition digit_val :: "char \<Rightarrow> int" where
  "digit_val c = of_char c - 48"

definition dec :: "string \<Rightarrow> int" where
  \<comment> \<open>The value of a string of decimal digits.\<close>
  "dec ds = foldl (\<lambda>n c. 10 * n + digit_val c) 0 ds"

definition SIZE_MAX :: int where
  \<comment> \<open>\<^verbatim>\<open>size_t\<close> is taken to be 64 bits wide, as the specification's \<^verbatim>\<open>u64\<close> fields are.\<close>
  "SIZE_MAX = 18446744073709551615"

definition INT_MAX :: int where
  "INT_MAX = 2147483647"

definition to_size_t :: "int \<Rightarrow> nat" where
  \<comment> \<open>The conversion of a signed number to \<^verbatim>\<open>size_t\<close>: modulo \<open>2 ^ 64\<close>.\<close>
  "to_size_t i = nat (i mod (SIZE_MAX + 1))"

definition unsign :: "string \<Rightarrow> bool \<times> string" where
  \<comment> \<open>Splits an optional leading sign off.\<close>
  "unsign s = (case s of
       [] \<Rightarrow> (False, [])
     | c # t \<Rightarrow> if c = CHR ''-'' then (True, t) else if c = CHR ''+'' then (False, t) else (False, s))"

definition lexical_cast_size_t :: "string \<Rightarrow> error + nat" where
  \<comment> \<open>\<^verbatim>\<open>boost::lexical_cast<size_t>\<close>: an optional sign and then digits only, the whole
      string; the digits have to fit \<^verbatim>\<open>size_t\<close>; a minus sign negates modulo \<open>2 ^ 64\<close>.\<close>
  "lexical_cast_size_t s =
     (let (neg, ds) = unsign s in
      if ds = [] \<or> \<not> list_all is_digit ds \<or> dec ds > SIZE_MAX then Inl bad_lexical_cast
      else Inr (to_size_t (if neg then - dec ds else dec ds)))"


definition atoi :: "string \<Rightarrow> error + int" where
  \<comment> \<open>\<^verbatim>\<open>std::atoi\<close>: white space, an optional sign, the longest run of digits; \<open>0\<close>
      when there is no digit; anything after the digits is ignored.\<close>
  "atoi s =
     (let (neg, t) = unsign (dropWhile is_space s);
          n = dec (takeWhile is_digit t) in
      if neg then (if n \<le> INT_MAX + 1 then Inr (- n) else Inl atoi_out_of_range)
      else (if n \<le> INT_MAX then Inr n else Inl atoi_out_of_range))"

function show_nat :: "nat \<Rightarrow> string" where
  \<comment> \<open>An unsigned number written to a stream, in decimal.\<close>
  "show_nat n =
     (if n < 10 then [''0123456789'' ! n]
      else show_nat (n div 10) @ [''0123456789'' ! (n mod 10)])"
  by pat_completeness auto
termination
  by (relation "measure id") auto

declare show_nat.simps [simp del]

function show_hex :: "nat \<Rightarrow> string" where
  \<comment> \<open>The conversion \<^verbatim>\<open>%x\<close> of \<^verbatim>\<open>boost::format\<close>.\<close>
  "show_hex n =
     (if n < 16 then [''0123456789abcdef'' ! n]
      else show_hex (n div 16) @ [''0123456789abcdef'' ! (n mod 16)])"
  by pat_completeness auto
termination
  by (relation "measure id") auto

declare show_hex.simps [simp del]

definition is_xdigit :: "char \<Rightarrow> bool" where
  "is_xdigit c \<longleftrightarrow> c \<in> set ''0123456789abcdefABCDEF''"

definition xdigit_val :: "char \<Rightarrow> int" where
  "xdigit_val c =
     (if is_digit c then of_char c - 48
      else if c \<in> set ''abcdef'' then of_char c - 87 else of_char c - 55)"

definition sscanf_x :: "string \<Rightarrow> nat option" where
  \<comment> \<open>\<^verbatim>\<open>sscanf(s, "%x", &v)\<close>: white space, an optional sign, an optional \<^verbatim>\<open>0x\<close>, the
      longest run of hexadecimal digits, stored as a 32-bit \<^verbatim>\<open>unsigned\<close>; \<open>None\<close> when no
      digit is found and the variable is left as it was.\<close>
  "sscanf_x s =
     (let (neg, t) = unsign (dropWhile is_space s);
          u = (if (prefix ''0x'' t \<or> prefix ''0X'' t) \<and> takeWhile is_xdigit (drop 2 t) \<noteq> []
               then drop 2 t else t);
          ds = takeWhile is_xdigit u;
          n = foldl (\<lambda>n c. 16 * n + xdigit_val c) 0 ds
      in if ds = [] then None
         else Some (nat ((if neg then - n else n) mod 4294967296)))"


abbreviation DQ :: char where "DQ \<equiv> CHR 0x22"   \<comment> \<open>the double quote\<close>
abbreviation NL :: char where "NL \<equiv> CHR 0x0A"   \<comment> \<open>the line feed, also \<^verbatim>\<open>std::endl\<close>\<close>

section \<open>Data model and the engine interface\<close>

record BreakPoint =
  bp_index :: nat
  bp_file :: string
  bp_line :: nat
  bp_enabled :: bool

record StackFrame =
  sf_name :: string
  sf_file :: string
  sf_line :: nat

record Variable =
  var_name :: string
  var_value :: string
  var_type :: string
  var_object_id :: nat
  var_has_children :: bool

text \<open>
  Modelled from the spec: the abstract class \<^verbatim>\<open>IDebugServer\<close> (\<^verbatim>\<open>DebugServer/IDebugServer.h\<close>)
  is not part of the sources at hand. Its operations are taken from the specification's
  section on the engine interface, over an engine state \<open>'e\<close> that the front-ends cannot
  look into. \<open>AddBreakPoint\<close> returns the index it leaves in the break point next to its
  verdict; its second argument is \<open>None\<close> where the caller leaves it to the default.
\<close>

record 'e IDebugServer =
  AddBreakPoint :: "BreakPoint \<Rightarrow> bool option \<Rightarrow> 'e \<Rightarrow> (bool \<times> nat) \<times> 'e"
  RemoveBreakPoint :: "nat \<Rightarrow> 'e \<Rightarrow> bool \<times> 'e"
  GetBreakPoints :: "'e \<Rightarrow> BreakPoint list"
  IsStopped :: "'e \<Rightarrow> bool"
  Step :: "'e \<Rightarrow> 'e"
  StepOut :: "'e \<Rightarrow> 'e"
  StepOver :: "'e \<Rightarrow> 'e"
  Stop :: "'e \<Rightarrow> 'e"
  GetStackFrames :: "'e \<Rightarrow> StackFrame list"
  GetActiveFrameIndex :: "'e \<Rightarrow> nat"
  SetActiveFrameIndex :: "nat \<Rightarrow> 'e \<Rightarrow> 'e"
  ShiftActiveFrame :: "bool \<Rightarrow> 'e \<Rightarrow> 'e"
  GetLocalVariables :: "'e \<Rightarrow> Variable list"
  GetGlobalVariables :: "'e \<Rightarrow> Variable list"
  GetInstanceVariables :: "nat \<Rightarrow> 'e \<Rightarrow> Variable list"
  EvaluateExpression :: "string \<Rightarrow> 'e \<Rightarrow> Variable \<times> 'e"
  GetBreakLineNumber :: "'e \<Rightarrow> nat"
  GetCodeLines :: "nat \<Rightarrow> nat \<Rightarrow> 'e \<Rightarrow> (nat \<times> string) list"

text \<open>
  What a front-end does to the outside, in the order it does it: the calls that change
  the engine or run on the interpreter, and the notifications of the condition variable.
\<close>

datatype event =
    Call_AddBreakPoint BreakPoint
  | Call_RemoveBreakPoint nat
  | Call_Step
  | Call_StepOut
  | Call_StepOver
  | Call_Stop
  | Call_SetActiveFrameIndex nat
  | Call_ShiftActiveFrame bool
  | Call_GetLocalVariables
  | Call_GetGlobalVariables
  | Call_GetInstanceVariables nat
  | Call_EvaluateExpression string
  | notify_all
  | notify_one

text \<open>
  Both front-ends hold the engine (\<^verbatim>\<open>server_\<close>) and the flag \<^verbatim>\<open>server_can_continue_\<close>
  that the interpreter thread waits for.
\<close>

record 'e front_end =
  server :: 'e
  server_can_continue :: bool
  trace :: "event list"

section \<open>The wire front-end (\<^verbatim>\<open>RDIP.cpp\<close>)\<close>

text \<open>
  The two callables \<^verbatim>\<open>server_response_\<close> and \<^verbatim>\<open>process_server_response_\<close> hold
  \<^verbatim>\<open>std::bind\<close> expressions; each is a constructor here, and an empty callable is \<open>None\<close>.
\<close>

datatype interp_task =
    bind_getVariables bool
  | bind_getInstanceVariables nat
  | bind_evalExpression

datatype adapter_task = bind_sendVariables string

record 'e rdip = "'e front_end" +
  server_response :: "interp_task option"
  process_server_response :: "adapter_task option"
  expression_to_eval :: string
  variables_to_send :: "Variable list"
  socket :: string                      \<comment> \<open>everything written to the socket so far\<close>
  logged :: string                      \<comment> \<open>everything passed to \<^verbatim>\<open>Log\<close> so far\<close>
  io_posted :: "adapter_task list"      \<comment> \<open>handlers posted to the i/o service, not yet run\<close>

definition sp :: regex where
  "sp = Atom Space"



definition encodeXml :: "string \<Rightarrow> string" where
  "encodeXml s =
     (let encoded = replace_all s ''&'' ''&amp;'';
          encoded = replace_all encoded [DQ] ''&quot;'';
          encoded = replace_all encoded ''<'' ''&lt;'';
          encoded = replace_all encoded ''>'' ''&gt;'';
          encoded = replace_all encoded [CHR 0x27] ''&apos;''
      in encoded)"

definition reg_brk :: regex where
  \<comment> \<open>\<^verbatim>\<open>^\s*b(?:reak)?\s+(?:(.+):)?([^.:]+)$\<close>\<close>
  "reg_brk = seqs [Bol, Star sp, chr CHR ''b'', Opt (lit ''reak''), Plus sp,
                   Opt (Seq (Group 1 (Plus (Atom Dot))) (chr CHR '':'')),
                   Group 2 (Plus (Atom (NoneOf ''.:''))), Eol]"

definition reg_brk_del :: regex where
  \<comment> \<open>\<^verbatim>\<open>^\s*del(?:ete)?(?:\s+(\d+))?$\<close>\<close>
  "reg_brk_del = seqs [Bol, Star sp, lit ''del'', Opt (lit ''ete''),
                       Opt (Seq (Plus sp) (Group 1 (Plus (Atom Digit)))), Eol]"

definition reg_start :: regex where
  \<comment> \<open>\<^verbatim>\<open>^\s*start$\<close>\<close>
  "reg_start = seqs [Bol, Star sp, lit ''start'', Eol]"

definition reg_exit :: regex where
  \<comment> \<open>\<^verbatim>\<open>^\s*exit?$\<close>\<close>
  "reg_exit = seqs [Bol, Star sp, lit ''exi'', Opt (chr CHR ''t''), Eol]"

definition reg_cont :: regex where
  \<comment> \<open>\<^verbatim>\<open>^\s*c(?:ont)?$\<close>\<close>
  "reg_cont = seqs [Bol, Star sp, chr CHR ''c'', Opt (lit ''ont''), Eol]"

definition reg_where :: regex where
  \<comment> \<open>\<^verbatim>\<open>^\s*w(?:here)?$\<close>\<close>
  "reg_where = seqs [Bol, Star sp, chr CHR ''w'', Opt (lit ''here''), Eol]"

definition reg_frame :: regex where
  \<comment> \<open>\<^verbatim>\<open>^\s*f(?:rame)? ([0-9]+)$\<close>\<close>
  "reg_frame = seqs [Bol, Star sp, chr CHR ''f'', Opt (lit ''rame''), chr CHR '' '',
                     Group 1 (Plus (Atom Digit)), Eol]"

definition reg_step :: regex where
  \<comment> \<open>\<^verbatim>\<open>^\s*s(?:tep)?\s?\<close>\<close>
  "reg_step = seqs [Bol, Star sp, chr CHR ''s'', Opt (lit ''tep''), Opt sp]"

definition reg_next :: regex where
  \<comment> \<open>\<^verbatim>\<open>^\s*n(?:ext)?$\<close>\<close>
  "reg_next = seqs [Bol, Star sp, chr CHR ''n'', Opt (lit ''ext''), Eol]"

definition reg_finish :: regex where
  \<comment> \<open>\<^verbatim>\<open>^\s*finish?$\<close>\<close>
  "reg_finish = seqs [Bol, Star sp, lit ''finis'', Opt (chr CHR ''h''), Eol]"

definition reg_var_inspect :: regex where
  \<comment> \<open>\<^verbatim>\<open>v inspect\s+\<close>\<close>
  "reg_var_inspect = seqs [lit ''v inspect'', Plus sp]"

definition reg_thr_lst :: regex where
  \<comment> \<open>\<^verbatim>\<open>^\s*th(?:read)? l(?:ist)?$\<close>\<close>
  "reg_thr_lst = seqs [Bol, Star sp, lit ''th'', Opt (lit ''read''), lit '' l'',
                       Opt (lit ''ist''), Eol]"

definition reg_var_local :: regex where
  \<comment> \<open>\<^verbatim>\<open>^\s*v(?:ar)? l(?:ocal)?$\<close>\<close>
  "reg_var_local = seqs [Bol, Star sp, chr CHR ''v'', Opt (lit ''ar''), lit '' l'',
                         Opt (lit ''ocal''), Eol]"

definition reg_var_global :: regex where
  \<comment> \<open>\<^verbatim>\<open>^\s*v(?:ar)? g(?:lobal)?$\<close>\<close>
  "reg_var_global = seqs [Bol, Star sp, chr CHR ''v'', Opt (lit ''ar''), lit '' g'',
                          Opt (lit ''lobal''), Eol]"

definition reg_var_instance :: regex where
  \<comment> \<open>\<^verbatim>\<open>^\s*v(?:ar)? i(?:nstance)? (.+)$\<close>\<close>
  "reg_var_instance = seqs [Bol, Star sp, chr CHR ''v'', Opt (lit ''ar''), lit '' i'',
                            Opt (lit ''nstance''), chr CHR '' '', Group 1 (Plus (Atom Dot)), Eol]"


text \<open>
  Writing to the socket (\<open>send\<close>, the source's \<^verbatim>\<open>write(socket_, ...)\<close>) and to the log
  only appends; a transport failure is outside this model. \<open>signal\<close> is the recurring triple of taking the mutex, setting
  \<^verbatim>\<open>server_can_continue_\<close> and notifying the condition variable.
\<close>

definition Log :: "string \<Rightarrow> 'e rdip \<Rightarrow> 'e rdip" where
  "Log msg s = s\<lparr>logged := logged s @ msg\<rparr>"

definition send :: "string \<Rightarrow> 'e rdip \<Rightarrow> 'e rdip" where
  "send buf s = s\<lparr>socket := socket s @ buf\<rparr>"

definition emit :: "event \<Rightarrow> ('e, 'z) front_end_scheme \<Rightarrow> ('e, 'z) front_end_scheme" where
  "emit ev s = s\<lparr>trace := trace s @ [ev]\<rparr>"

definition signal :: "('e, 'z) front_end_scheme \<Rightarrow> ('e, 'z) front_end_scheme" where
  "signal s = emit notify_all (s\<lparr>server_can_continue := True\<rparr>)"

definition cmd_brk :: "'e IDebugServer \<Rightarrow> match_results \<Rightarrow> 'e rdip \<Rightarrow> error + 'e rdip" where
  \<comment> \<open>The branch of \<^verbatim>\<open>reg_brk\<close>; the break point's index is not set before the call.\<close>
  "cmd_brk E m s =
     (if match_size reg_brk = 3 then
        (case atoi (sub m 2) of
           Inl e \<Rightarrow> Inl e
         | Inr n \<Rightarrow>
            (let bp = \<lparr>bp_index = 0, bp_file = replace_all (sub m 1) [CHR 0x5C] ''/'',
                       bp_line = to_size_t n, bp_enabled = True\<rparr>;
                 ((ok, idx), e') = AddBreakPoint E bp (Some True) (server s);
                 s = emit (Call_AddBreakPoint bp) (s\<lparr>server := e'\<rparr>);
                 bp = bp\<lparr>bp_index := idx\<rparr>
             in if ok then
                  (let reply = ''<breakpointAdded no='' @ [DQ] @ show_nat (bp_index bp) @ [DQ]
                          @ '' location='' @ [DQ] @ bp_file bp @ '':'' @ show_nat (bp_line bp)
                          @ [DQ] @ ''/>'' @ [NL]
                   in Inr (Log (''    => Breakpoint added'' @ [NL]) (Log reply (send reply s))))
                else Inr (Log (''Adding breakpoint failed'' @ [NL] @ ''.'') s)))
      else Inr s)"

definition cmd_brk_del :: "'e IDebugServer \<Rightarrow> match_results \<Rightarrow> 'e rdip \<Rightarrow> error + 'e rdip" where
  \<comment> \<open>The branch of \<^verbatim>\<open>reg_brk_del\<close>; nothing catches what \<^verbatim>\<open>lexical_cast\<close> throws.\<close>
  "cmd_brk_del E m s =
     (if match_size reg_brk_del = 2 then
        (case lexical_cast_size_t (sub m 1) of
           Inl e \<Rightarrow> Inl e
         | Inr index \<Rightarrow>
            (let (ok, e') = RemoveBreakPoint E index (server s);
                 s = emit (Call_RemoveBreakPoint index) (s\<lparr>server := e'\<rparr>)
             in if ok then
                  (let reply = ''<breakpointDeleted no='' @ [DQ] @ show_nat index @ [DQ]
                          @ '' />'' @ [NL]
                   in Inr (Log (''    => Breakpoint deleted'' @ [NL]) (Log reply (send reply s))))
                else Inr (Log (''Breakpoint could not be deleted'' @ [NL]) s)))
      else Inr s)"

definition cmd_exit :: "'e IDebugServer \<Rightarrow> 'e rdip \<Rightarrow> 'e rdip" where
  \<comment> \<open>Stop debugging. First let SU continue in case it's at a breakpoint. Now call Stop.\<close>
  "cmd_exit E s = (let s = signal s in emit Call_Stop (s\<lparr>server := Stop E (server s)\<rparr>))"

definition frame_element :: "nat \<Rightarrow> nat \<Rightarrow> StackFrame \<Rightarrow> string" where
  "frame_element activeFrameIdx i frame =
     (let file = encodeXml (sf_file frame) in
      ''<frame no='' @ [DQ] @ show_nat i @ [DQ] @ '' file='' @ [DQ] @ file @ [DQ]
        @ '' line='' @ [DQ] @ show_nat (sf_line frame) @ [DQ]
        @ (if activeFrameIdx \<noteq> i then ''/>'' else '' current='' @ [DQ] @ ''yes'' @ [DQ] @ ''/>''))"

definition cmd_where :: "'e IDebugServer \<Rightarrow> 'e rdip \<Rightarrow> 'e rdip" where
  "cmd_where E s =
     (let frames = GetStackFrames E (server s);
          activeFrameIdx = GetActiveFrameIndex E (server s);
          str_send = ''<frames>'' @ [NL]
            @ concat (map (\<lambda>i. frame_element activeFrameIdx i (frames ! i)) [0 ..< length frames])
            @ ''</frames>'' @ [NL]
      in send str_send (Log str_send s))"

definition cmd_thr_lst :: "'e rdip \<Rightarrow> 'e rdip" where
  "cmd_thr_lst s =
     send (''<threads>'' @ [NL] @ ''<thread id='' @ [DQ] @ ''1'' @ [DQ] @ '' status='' @ [DQ]
            @ ''run'' @ [DQ] @ ''/>'' @ [NL] @ ''</threads>'' @ [NL]) s"

definition cmd_frame :: "'e IDebugServer \<Rightarrow> match_results \<Rightarrow> 'e rdip \<Rightarrow> error + 'e rdip" where
  "cmd_frame E m s =
     (if match_size reg_frame = 2 then
        (case lexical_cast_size_t (sub m 1) of
           Inl e \<Rightarrow> Inl e
         | Inr frameIndex \<Rightarrow>
             Inr (emit (Call_SetActiveFrameIndex frameIndex)
                    (s\<lparr>server := SetActiveFrameIndex E frameIndex (server s)\<rparr>)))
      else Inr s)"

definition request :: "interp_task \<Rightarrow> adapter_task \<Rightarrow> 'e rdip \<Rightarrow> 'e rdip" where
  \<comment> \<open>The two assignments and the notification shared by the four \<^verbatim>\<open>v ...\<close> branches.\<close>
  "request t a s =
     emit notify_all (s\<lparr>server_response := Some t, process_server_response := Some a\<rparr>)"

definition cmd_var_instance :: "match_results \<Rightarrow> 'e rdip \<Rightarrow> 'e rdip" where
  "cmd_var_instance m s =
     (let objectID = (case sscanf_x (sub m 1) of None \<Rightarrow> 0 | Some v \<Rightarrow> v)
      in request (bind_getInstanceVariables objectID) (bind_sendVariables ''instance'') s)"

definition matches :: "string \<Rightarrow> regex \<Rightarrow> bool" where
  "matches s r \<longleftrightarrow> regex_match s r \<noteq> None"

definition evaluateCommand :: "'e IDebugServer \<Rightarrow> string \<Rightarrow> 'e rdip \<Rightarrow> error + 'e rdip" where
  "evaluateCommand E cmd s =
    (case regex_match cmd reg_brk of Some m \<Rightarrow> cmd_brk E m s | None \<Rightarrow>
    (case regex_match cmd reg_brk_del of Some m \<Rightarrow> cmd_brk_del E m s | None \<Rightarrow>
     if matches cmd reg_start \<or> matches cmd reg_cont then Inr (signal s)
     else if matches cmd reg_exit then Inr (cmd_exit E s)
     else if matches cmd reg_where then Inr (cmd_where E s)
     else if matches cmd reg_thr_lst then Inr (cmd_thr_lst s)
     else (case regex_match cmd reg_frame of Some m \<Rightarrow> cmd_frame E m s | None \<Rightarrow>
     if matches cmd reg_step then
       Inr (signal (emit Call_Step (s\<lparr>server := Step E (server s)\<rparr>)))
     else if matches cmd reg_finish then
       Inr (signal (emit Call_StepOut (s\<lparr>server := StepOut E (server s)\<rparr>)))
     else if matches cmd reg_next then
       Inr (signal (emit Call_StepOver (s\<lparr>server := StepOver E (server s)\<rparr>)))
     else (case regex_search cmd reg_var_inspect of
       Some m \<Rightarrow> Inr (request bind_evalExpression (bind_sendVariables ''watch'')
                        (s\<lparr>expression_to_eval := suffix m\<rparr>))
     | None \<Rightarrow>
     if matches cmd reg_var_local then
       Inr (request (bind_getVariables True) (bind_sendVariables ''local'') s)
     else if matches cmd reg_var_global then
       Inr (request (bind_getVariables False) (bind_sendVariables ''global'') s)
     else (case regex_match cmd reg_var_instance of
       Some m \<Rightarrow> Inr (cmd_var_instance m s)
     | None \<Rightarrow> Inr (Log [NL] (Log cmd (Log ''Unknown command : '' s))))))))"

definition getVariables :: "'e IDebugServer \<Rightarrow> bool \<Rightarrow> 'e rdip \<Rightarrow> 'e rdip" where
  "getVariables E local s =
     (if local
      then emit Call_GetLocalVariables (s\<lparr>variables_to_send := GetLocalVariables E (server s)\<rparr>)
      else emit Call_GetGlobalVariables (s\<lparr>variables_to_send := GetGlobalVariables E (server s)\<rparr>))"

definition getInstanceVariables :: "'e IDebugServer \<Rightarrow> nat \<Rightarrow> 'e rdip \<Rightarrow> 'e rdip" where
  "getInstanceVariables E object_id s =
     emit (Call_GetInstanceVariables object_id)
       (s\<lparr>variables_to_send := GetInstanceVariables E object_id (server s)\<rparr>)"

definition variable_element :: "string \<Rightarrow> Variable \<Rightarrow> string" where
  "variable_element kind var =
     (let val = encodeXml (var_value var);
          name = encodeXml (var_name var)
      in ''<variable name='' @ [DQ] @ name @ [DQ] @ '' kind='' @ [DQ] @ kind @ [DQ]
         @ '' value='' @ [DQ] @ val @ [DQ] @ '' type='' @ [DQ] @ var_type var @ [DQ]
         @ '' hasChildren='' @ [DQ] @ (if var_has_children var then ''true'' else ''false'') @ [DQ]
         @ '' objectId='' @ [DQ] @ show_hex (var_object_id var) @ [DQ] @ ''/>'' @ [NL])"

definition sendVariables :: "string \<Rightarrow> 'e rdip \<Rightarrow> 'e rdip" where
  "sendVariables kind s =
     (let s = Log (''sending variables'' @ [NL]) s;
          send_str = ''<variables>'' @ [NL]
            @ concat (map (variable_element kind) (variables_to_send s))
            @ ''</variables>'' @ [NL];
          s = send send_str (Log send_str s)
      in s\<lparr>variables_to_send := []\<rparr>)"

definition evalExpression :: "'e IDebugServer \<Rightarrow> 'e rdip \<Rightarrow> 'e rdip" where
  "evalExpression E s =
     (let s = s\<lparr>variables_to_send := []\<rparr> in
      if expression_to_eval s \<noteq> [] then
        (let (var, e') = EvaluateExpression E (expression_to_eval s) (server s);
             s = emit (Call_EvaluateExpression (expression_to_eval s)) (s\<lparr>server := e'\<rparr>)
         in s\<lparr>variables_to_send := variables_to_send s @ [var], expression_to_eval := []\<rparr>)
      else s)"


subsection \<open>Reading a line, and the rendezvous with the interpreter thread\<close>

fun split :: "string \<Rightarrow> char \<Rightarrow> string list" where
  \<comment> \<open>\<^verbatim>\<open>boost::split\<close> at one separator; empty pieces are kept.\<close>
  "split [] sep = [[]]"
| "split (c # cs) sep =
     (if c = sep then [] # split cs sep
      else (case split cs sep of [] \<Rightarrow> [[c]] | p # ps \<Rightarrow> (c # p) # ps))"

definition trim_copy :: "string \<Rightarrow> string" where
  "trim_copy s = rev (dropWhile is_space (rev (dropWhile is_space s)))"

fun evaluateCommands :: "'e IDebugServer \<Rightarrow> string list \<Rightarrow> 'e rdip \<Rightarrow> error + 'e rdip" where
  \<comment> \<open>The loop over the commands of one line; an exception ends it.\<close>
  "evaluateCommands E [] s = Inr s"
| "evaluateCommands E (cmd # cmds) s =
     (case evaluateCommand E (trim_copy cmd) s of
        Inl e \<Rightarrow> Inl e
      | Inr s' \<Rightarrow> evaluateCommands E cmds s')"

definition handleCommand :: "'e IDebugServer \<Rightarrow> string \<Rightarrow> 'e rdip \<Rightarrow> error + 'e rdip" where
  \<comment> \<open>The handler of a completed read without error; \<open>str\<close> is what the read buffer holds.\<close>
  "handleCommand E str s =
     evaluateCommands E (split str CHR '';'') (Log str (Log ([NL] @ ''Command from IDE => '') s))"

fun perform :: "'e IDebugServer \<Rightarrow> interp_task \<Rightarrow> 'e rdip \<Rightarrow> 'e rdip" where
  \<comment> \<open>Calling \<^verbatim>\<open>server_response_\<close>.\<close>
  "perform E (bind_getVariables local) s = getVariables E local s"
| "perform E (bind_getInstanceVariables object_id) s = getInstanceVariables E object_id s"
| "perform E bind_evalExpression s = evalExpression E s"

fun run_handler :: "adapter_task \<Rightarrow> 'e rdip \<Rightarrow> 'e rdip" where
  \<comment> \<open>Calling a posted \<^verbatim>\<open>process_server_response_\<close>.\<close>
  "run_handler (bind_sendVariables kind) s = sendVariables kind s"

text \<open>
  The i/o service thread runs one handler after the other: the handler of a line that
  has been read, or the oldest handler that the interpreter thread posted. The handler
  of a line evaluates the commands of the line one after the other; where the
  interpreter thread gets to run between two of them, the line is given command by
  command.
\<close>

datatype handler =
    Line string      \<comment> \<open>a line has been read: \<^verbatim>\<open>handleCommand\<close>, all of it\<close>
  | Command string   \<comment> \<open>the next command of the line that is being handled\<close>
  | Posted           \<comment> \<open>the oldest posted handler\<close>

fun io_service_run :: "'e IDebugServer \<Rightarrow> handler list \<Rightarrow> 'e rdip \<Rightarrow> error + 'e rdip" where
  "io_service_run E [] s = Inr s"
| "io_service_run E (Line str # hs) s =
     (case handleCommand E str s of Inl e \<Rightarrow> Inl e | Inr s' \<Rightarrow> io_service_run E hs s')"
| "io_service_run E (Command cmd # hs) s =
     (case evaluateCommand E (trim_copy cmd) s of
        Inl e \<Rightarrow> Inl e
      | Inr s' \<Rightarrow> io_service_run E hs s')"
| "io_service_run E (Posted # hs) s =
     (case io_posted s of
        [] \<Rightarrow> io_service_run E hs s
      | a # q \<Rightarrow> io_service_run E hs (run_handler a (s\<lparr>io_posted := q\<rparr>)))"

definition serve_response :: "'e IDebugServer \<Rightarrow> 'e rdip \<Rightarrow> 'e rdip" where
  \<comment> \<open>The body of \<^verbatim>\<open>if (server_response_)\<close> in the loop of \<^verbatim>\<open>RDIP::WaitForContinue\<close>.\<close>
  "serve_response E s =
     (case server_response s of
        None \<Rightarrow> s
      | Some t \<Rightarrow>
         (let s = perform E t s;
              s = (case process_server_response s of
                     None \<Rightarrow> s
                   | Some a \<Rightarrow> s\<lparr>io_posted := io_posted s @ [a]\<rparr>)
          in s\<lparr>server_response := None\<rparr>))"

datatype 's waited =
    Returned 's       \<comment> \<open>the loop was left: the interpreter runs on\<close>
  | Waiting 's        \<comment> \<open>still blocked in \<^verbatim>\<open>wait\<close> when the observed run ends\<close>
  | Uncaught error    \<comment> \<open>an exception left a handler of the i/o service thread\<close>

text \<open>
  The loop of \<^verbatim>\<open>RDIP::WaitForContinue\<close>. While the interpreter thread is blocked in
  \<^verbatim>\<open>wait\<close> the mutex is free and the i/o service thread runs handlers; each element
  of \<open>ws\<close> is what it runs during one \<^verbatim>\<open>wait\<close>, until the interpreter thread has
  the mutex again (an empty element is a spurious wake-up).
\<close>

fun wait_loop :: "'e IDebugServer \<Rightarrow> handler list list \<Rightarrow> 'e rdip \<Rightarrow> 'e rdip waited" where
  "wait_loop E [] s =
     (if server_can_continue s then Returned (Log (''Let SketchUp start'' @ [NL]) s)
      else Waiting (serve_response E s))"
| "wait_loop E (w # ws) s =
     (if server_can_continue s then Returned (Log (''Let SketchUp start'' @ [NL]) s)
      else (case io_service_run E w (serve_response E s) of
              Inl e \<Rightarrow> Uncaught e
            | Inr s' \<Rightarrow> wait_loop E ws s'))"

definition WaitForContinue :: "'e IDebugServer \<Rightarrow> handler list list \<Rightarrow> 'e rdip \<Rightarrow> 'e rdip waited" where
  "WaitForContinue E ws s = wait_loop E ws (s\<lparr>server_can_continue := False\<rparr>)"

fun blocked :: "'s waited \<Rightarrow> 's option" where
  \<comment> \<open>The state in which the interpreter thread is found blocked, if it is.\<close>
  "blocked (Waiting s) = Some s"
| "blocked _ = None"

section \<open>The console front-end (\<^verbatim>\<open>ConsoleUI.cpp\<close>)\<close>

datatype need = NEED_NOTHING | NEED_EVAL | NEED_GLOBAL_VARS | NEED_LOCAL_VARS

record 'e console_ui = "'e front_end" +
  server_will_continue :: bool
  need_server_response :: bool
  need_what_from_server :: need
  expression_to_evaluate :: string
  cout :: string                        \<comment> \<open>everything written to the console so far\<close>

definition put :: "string \<Rightarrow> 'e console_ui \<Rightarrow> 'e console_ui" where
  \<comment> \<open>\<^verbatim>\<open>std::cout << text\<close>\<close>
  "put text s = s\<lparr>cout := cout s @ text\<rparr>"

definition help_text :: string where
  "help_text = ''Debugger help'' @ [NL] @
  ''Commands'' @ [NL] @
  ''  b[reak] file:line          set breakpoint to some position'' @ [NL] @
  ''  b[reak]                    list breakpoints'' @ [NL] @
  ''  del[ete]                   delete a breakpoint'' @ [NL] @
  ''  c[ont]                     run until program ends or hits a breakpoint'' @ [NL] @
  ''  s[tep]                     step (into methods) one line'' @ [NL] @
  ''  s[tep] o[ut]               step out of the current method'' @ [NL] @
  ''  n[ext]                     go over one line, stepping over methods'' @ [NL] @
  ''  w[here]                    display frames'' @ [NL] @
  ''  f[rame]                    alias for where'' @ [NL] @
  ''  l[ist]                     list program'' @ [NL] @
  ''  up                         move to higher frame'' @ [NL] @
  ''  down                       move to lower frame'' @ [NL] @
  ''  v[ar] g[lobal]             show global variables'' @ [NL] @
  ''  v[ar] l[ocal]              show local variables'' @ [NL] @
  ''  p expression               evaluate expression and print its value'' @ [NL] @
  ''  h[elp]                     print this help'' @ [NL] @
  ''  <everything else>          evaluate'' @ [NL]"

definition PrintHelp :: "'e console_ui \<Rightarrow> 'e console_ui" where
  "PrintHelp s = put ([NL] @ help_text) s"

definition WriteText :: "string \<Rightarrow> 'e console_ui \<Rightarrow> 'e console_ui" where
  "WriteText message s = put ([NL] @ message @ [NL]) s"

definition WriteBreakPoint :: "BreakPoint \<Rightarrow> 'e console_ui \<Rightarrow> 'e console_ui" where
  "WriteBreakPoint bp s =
     put (''  '' @ show_nat (bp_index bp) @ '' '' @ bp_file bp @ '':'' @ show_nat (bp_line bp) @ [NL]) s"

definition WriteBreakPoints :: "BreakPoint list \<Rightarrow> 'e console_ui \<Rightarrow> 'e console_ui" where
  "WriteBreakPoints bps s =
     (if bps = [] then WriteText ''No breakpoints'' s
      else fold WriteBreakPoint bps (WriteText ''Breakpoints:'' s))"

definition WriteVariables :: "Variable list \<Rightarrow> 'e console_ui \<Rightarrow> 'e console_ui" where
  "WriteVariables var_vec s =
     fold (\<lambda>it. put (''  '' @ var_name it @ '' => '' @ var_value it @ [NL])) var_vec (put [NL] s)"

definition WritePrompt :: "'e IDebugServer \<Rightarrow> 'e console_ui \<Rightarrow> 'e console_ui" where
  "WritePrompt E s =
     put ([NL] @ ''sudb (''
          @ (if server_will_continue s \<or> \<not> IsStopped E (server s) then ''running'' else ''stopped'')
          @ ''): '') s"

definition WriteFrames :: "'e IDebugServer \<Rightarrow> 'e console_ui \<Rightarrow> 'e console_ui" where
  "WriteFrames E s =
     (let frames = GetStackFrames E (server s);
          active_frame_index = GetActiveFrameIndex E (server s)
      in fold (\<lambda>i. put ((if i = active_frame_index then ''--> '' else ''    '')
                          @ ''#'' @ show_nat (i + 1) @ '' '' @ sf_name (frames ! i) @ [NL]))
           [0 ..< length frames] (put [NL] s))"

definition setw :: "nat \<Rightarrow> string \<Rightarrow> string" where
  \<comment> \<open>\<^verbatim>\<open>std::setw\<close> for the next item: padded with spaces on the left.\<close>
  "setw n text = replicate (n - length text) CHR '' '' @ text"

definition WriteCodeLines :: "'e IDebugServer \<Rightarrow> 'e console_ui \<Rightarrow> 'e console_ui" where
  "WriteCodeLines E s =
     (let code_lines = GetCodeLines E 0 0 (server s);
          current_line = GetBreakLineNumber E (server s)
      in fold (\<lambda>line_pair. put ((if fst line_pair = current_line then ''=>'' else ''  '')
                                  @ setw 4 (show_nat (fst line_pair)) @ ''  '' @ snd line_pair))
           code_lines (put [NL] s))"


definition reg_brk_list :: regex where
  \<comment> \<open>\<^verbatim>\<open>^\s*b(?:reak)?$\<close>\<close>
  "reg_brk_list = seqs [Bol, Star sp, chr CHR ''b'', Opt (lit ''reak''), Eol]"

definition reg_help :: regex where
  \<comment> \<open>\<^verbatim>\<open>^\s*h(?:elp)?$\<close>\<close>
  "reg_help = seqs [Bol, Star sp, chr CHR ''h'', Opt (lit ''elp''), Eol]"

definition ui_reg_frame :: regex where
  \<comment> \<open>The console's \<^verbatim>\<open>reg_frame\<close>, \<^verbatim>\<open>^\s*f(?:rame)?$\<close>\<close>
  "ui_reg_frame = seqs [Bol, Star sp, chr CHR ''f'', Opt (lit ''rame''), Eol]"

definition reg_list :: regex where
  \<comment> \<open>\<^verbatim>\<open>^\s*l(?:ist)?$\<close>\<close>
  "reg_list = seqs [Bol, Star sp, chr CHR ''l'', Opt (lit ''ist''), Eol]"

definition reg_up :: regex where
  \<comment> \<open>\<^verbatim>\<open>^\s*up?$\<close>\<close>
  "reg_up = seqs [Bol, Star sp, chr CHR ''u'', Opt (chr CHR ''p''), Eol]"

definition reg_down :: regex where
  \<comment> \<open>\<^verbatim>\<open>^\s*down?$\<close>\<close>
  "reg_down = seqs [Bol, Star sp, lit ''dow'', Opt (chr CHR ''n''), Eol]"

definition reg_eval :: regex where
  \<comment> \<open>\<^verbatim>\<open>^\s*p\s+\<close>\<close>
  "reg_eval = seqs [Bol, Star sp, chr CHR ''p'', Plus sp]"

definition reg_var :: regex where
  \<comment> \<open>\<^verbatim>\<open>^\s*v(ar)?\s+\<close>\<close>
  "reg_var = seqs [Bol, Star sp, chr CHR ''v'', Opt (Group 1 (lit ''ar'')), Plus sp]"

definition reg_out :: regex where
  \<comment> \<open>\<^verbatim>\<open>^o(ut)?$\<close>\<close>
  "reg_out = seqs [Bol, chr CHR ''o'', Opt (Group 1 (lit ''ut'')), Eol]"

definition reg_global :: regex where
  \<comment> \<open>\<^verbatim>\<open>^g(lobal)?$\<close>\<close>
  "reg_global = seqs [Bol, chr CHR ''g'', Opt (Group 1 (lit ''lobal'')), Eol]"

definition reg_local :: regex where
  \<comment> \<open>\<^verbatim>\<open>^l(ocal)?$\<close>\<close>
  "reg_local = seqs [Bol, chr CHR ''l'', Opt (Group 1 (lit ''ocal'')), Eol]"

text \<open>The three local flags of \<^verbatim>\<open>ConsoleUI::EvaluateCommand\<close>.\<close>

record flags =
  is_legal_command :: bool
  signal_server_can_continue :: bool
  write_prompt :: bool

definition illegal :: flags where
  \<comment> \<open>The flags as they are initialised.\<close>
  "illegal = \<lparr>is_legal_command = False, signal_server_can_continue = False, write_prompt = True\<rparr>"

definition legal :: flags where
  "legal = illegal\<lparr>is_legal_command := True\<rparr>"

definition resuming :: flags where
  "resuming = illegal\<lparr>signal_server_can_continue := True, is_legal_command := True\<rparr>"

definition deferred :: flags where
  "deferred = illegal\<lparr>is_legal_command := True, write_prompt := False\<rparr>"

definition ui_brk_del :: "'e IDebugServer \<Rightarrow> match_results \<Rightarrow> 'e console_ui \<Rightarrow> flags \<times> 'e console_ui" where
  \<comment> \<open>Delete breakpoint(s); the \<^verbatim>\<open>catch\<close> leaves the command illegal.\<close>
  "ui_brk_del E m s =
     (case lexical_cast_size_t (sub m 1) of
        Inl e \<Rightarrow> (illegal, s)
      | Inr index \<Rightarrow>
         (let (ok, e') = RemoveBreakPoint E index (server s);
              s = emit (Call_RemoveBreakPoint index) (s\<lparr>server := e'\<rparr>)
          in (legal, if \<not> ok then WriteText ''Cannot remove breakpoint'' s else s)))"

definition ui_brk :: "'e IDebugServer \<Rightarrow> match_results \<Rightarrow> 'e console_ui \<Rightarrow> flags \<times> 'e console_ui" where
  \<comment> \<open>Add breakpoint\<close>
  "ui_brk E m s =
     (if match_size reg_brk = 3 then
        (case lexical_cast_size_t (sub m 2) of
           Inl e \<Rightarrow> (illegal, s)
         | Inr n \<Rightarrow>
            (let bp = \<lparr>bp_index = 0, bp_file = sub m 1, bp_line = n, bp_enabled = True\<rparr>;
                 ((ok, idx), e') = AddBreakPoint E bp None (server s);
                 s = emit (Call_AddBreakPoint bp) (s\<lparr>server := e'\<rparr>);
                 bp = bp\<lparr>bp_index := idx\<rparr>
             in (legal, if ok then WriteBreakPoint bp (WriteText ''Added breakpoint:'' s)
                        else WriteText ''Cannot add breakpoint'' s)))
      else (illegal, s))"

definition ui_step :: "'e IDebugServer \<Rightarrow> match_results \<Rightarrow> 'e console_ui \<Rightarrow> flags \<times> 'e console_ui" where
  "ui_step E m s =
     (if matches (suffix m) reg_out
      then (resuming, emit Call_StepOut (s\<lparr>server := StepOut E (server s)\<rparr>))
      else (resuming, emit Call_Step (s\<lparr>server := Step E (server s)\<rparr>)))"

definition ui_var :: "match_results \<Rightarrow> 'e console_ui \<Rightarrow> flags \<times> 'e console_ui" where
  "ui_var m s =
     (let s = (if matches (suffix m) reg_global then s\<lparr>need_what_from_server := NEED_GLOBAL_VARS\<rparr>
               else if matches (suffix m) reg_local then s\<lparr>need_what_from_server := NEED_LOCAL_VARS\<rparr>
               else s)
      in if need_what_from_server s \<noteq> NEED_NOTHING
         then (deferred, s\<lparr>need_server_response := True\<rparr>)
         else (illegal, s))"

definition ui_chain :: "'e IDebugServer \<Rightarrow> string \<Rightarrow> 'e console_ui \<Rightarrow> flags \<times> 'e console_ui" where
  \<comment> \<open>The chain of \<^verbatim>\<open>if ... else if\<close> of \<^verbatim>\<open>ConsoleUI::EvaluateCommand\<close>.\<close>
  "ui_chain E str_command s =
    (if matches str_command reg_brk_list then
       (legal, WriteBreakPoints (GetBreakPoints E (server s)) s)
     else (case regex_match str_command reg_brk_del of Some m \<Rightarrow> ui_brk_del E m s | None \<Rightarrow>
     (case regex_match str_command reg_brk of Some m \<Rightarrow> ui_brk E m s | None \<Rightarrow>
     if matches str_command reg_cont then (resuming, s)
     else (case regex_search str_command reg_step of Some m \<Rightarrow> ui_step E m s | None \<Rightarrow>
     if matches str_command reg_next then
       (resuming, emit Call_StepOver (s\<lparr>server := StepOver E (server s)\<rparr>))
     else if matches str_command reg_help then (legal, PrintHelp s)
     else if matches str_command reg_up then
       (legal, WriteFrames E (emit (Call_ShiftActiveFrame True)
                 (s\<lparr>server := ShiftActiveFrame E True (server s)\<rparr>)))
     else if matches str_command reg_down then
       (legal, WriteFrames E (emit (Call_ShiftActiveFrame False)
                 (s\<lparr>server := ShiftActiveFrame E False (server s)\<rparr>)))
     else if matches str_command reg_where \<or> matches str_command ui_reg_frame then
       (legal, WriteFrames E s)
     else if matches str_command reg_list then (legal, WriteCodeLines E s)
     else (case regex_search str_command reg_eval of
       Some m \<Rightarrow> (deferred, s\<lparr>expression_to_evaluate := suffix m,
                                need_what_from_server := NEED_EVAL,
                                need_server_response := True\<rparr>)
     | None \<Rightarrow>
     (case regex_search str_command reg_var of Some m \<Rightarrow> ui_var m s | None \<Rightarrow>
     if str_command \<noteq> [] then
       (deferred, s\<lparr>expression_to_evaluate := str_command, need_server_response := True\<rparr>)
     else (illegal, s)))))))"

definition ui_finish :: "'e IDebugServer \<Rightarrow> flags \<Rightarrow> 'e console_ui \<Rightarrow> 'e console_ui" where
  \<comment> \<open>What \<^verbatim>\<open>ConsoleUI::EvaluateCommand\<close> does after the chain.\<close>
  "ui_finish E f s =
     (let s = (if \<not> is_legal_command f then WriteText ''Illegal command'' s else s);
          s = (if need_server_response s then emit notify_one s else s);
          s = (if signal_server_can_continue f
               then (emit notify_one (s\<lparr>server_can_continue := True\<rparr>))\<lparr>server_will_continue := True\<rparr>
               else s);
          s = (if write_prompt f then WritePrompt E s else s)
      in s\<lparr>server_will_continue := False\<rparr>)"

definition EvaluateCommand :: "'e IDebugServer \<Rightarrow> string \<Rightarrow> 'e console_ui \<Rightarrow> bool \<times> 'e console_ui" where
  "EvaluateCommand E str_command s =
     (let s = s\<lparr>need_server_response := False, need_what_from_server := NEED_NOTHING,
                expression_to_evaluate := []\<rparr>;
          (f, s) = ui_chain E str_command s
      in (is_legal_command f, ui_finish E f s))"

definition ui_serve :: "'e IDebugServer \<Rightarrow> 'e console_ui \<Rightarrow> 'e console_ui" where
  \<comment> \<open>The body of \<^verbatim>\<open>if (need_server_response_)\<close> in \<^verbatim>\<open>ConsoleUI::WaitForContinue\<close>.\<close>
  "ui_serve E s =
     (if need_server_response s then
        WritePrompt E
          (case need_what_from_server s of
             NEED_EVAL \<Rightarrow>
               (let (eval_res, e') = EvaluateExpression E (expression_to_evaluate s) (server s)
                in WriteText (var_value eval_res)
                     (emit (Call_EvaluateExpression (expression_to_evaluate s)) (s\<lparr>server := e'\<rparr>)))
           | NEED_GLOBAL_VARS \<Rightarrow>
               WriteVariables (GetGlobalVariables E (server s)) (emit Call_GetGlobalVariables s)
           | NEED_LOCAL_VARS \<Rightarrow>
               WriteVariables (GetLocalVariables E (server s)) (emit Call_GetLocalVariables s)
           | NEED_NOTHING \<Rightarrow> s)
      else s)"

text \<open>
  The loop of \<^verbatim>\<open>ConsoleUI::WaitForContinue\<close>; each element of \<open>ws\<close> holds the lines that
  the console thread evaluates during one \<^verbatim>\<open>wait\<close> of the interpreter thread.
\<close>

fun ui_wait_loop :: "'e IDebugServer \<Rightarrow> string list list \<Rightarrow> 'e console_ui \<Rightarrow> 'e console_ui waited" where
  "ui_wait_loop E [] s = (if server_can_continue s then Returned s else Waiting s)"
| "ui_wait_loop E (w # ws) s =
     (if server_can_continue s then Returned s
      else ui_wait_loop E ws (ui_serve E (fold (\<lambda>line s. snd (EvaluateCommand E line s)) w s)))"

definition ui_WaitForContinue :: "'e IDebugServer \<Rightarrow> string list list \<Rightarrow> 'e console_ui \<Rightarrow> 'e console_ui waited" where
  \<comment> \<open>\<^verbatim>\<open>ConsoleUI::WaitForContinue\<close>\<close>
  "ui_WaitForContinue E ws s = ui_wait_loop E ws (s\<lparr>server_can_continue := False\<rparr>)"


text \<open>
  A console line asks for the interpreter to resume when the chain reaches the branch of
  \<^verbatim>\<open>reg_cont\<close>, \<^verbatim>\<open>reg_step\<close> (step and step out) or \<^verbatim>\<open>reg_next\<close>.
\<close>

definition requests_resumption :: "string \<Rightarrow> bool" where
  "requests_resumption line \<longleftrightarrow>
     \<not> matches line reg_brk_list \<and> regex_match line reg_brk_del = None
     \<and> regex_match line reg_brk = None
     \<and> (matches line reg_cont \<or> regex_search line reg_step \<noteq> None \<or> matches line reg_next)"

text \<open>
  The state of the reply buffer between the two threads: it is empty unless a posted
  reply is still to be run, and a pending task has its follow-up.
\<close>

definition settled :: "'e rdip \<Rightarrow> bool" where
  "settled s \<longleftrightarrow>
     (io_posted s = [] \<longrightarrow> variables_to_send s = [])
     \<and> (server_response s \<noteq> None \<longrightarrow> process_server_response s \<noteq> None)"

section \<open>The patterns of the two dispatchers\<close>







fun first_lit :: "regex \<Rightarrow> char option" where
  "first_lit (Atom (Lit c)) = Some c"
| "first_lit (Seq p q) = first_lit p"
| "first_lit (Group n p) = first_lit p"
| "first_lit _ = None"

fun head_lit :: "regex \<Rightarrow> char option" where
  \<comment> \<open>The first literal of an expression of the form \<^verbatim>\<open>^\s*...\<close>.\<close>
  "head_lit (Seq Bol (Seq (Star (Atom Space)) q)) = first_lit q"
| "head_lit _ = None"


section \<open>A small engine to run the front-ends on\<close>

text \<open>
  The engine is a parameter of everything above. To evaluate the front-ends on concrete
  input, this engine keeps a list of break points, numbers them from 1, refuses a break
  point whose place is taken already, has one local variable and echoes the expression
  it is asked to evaluate.
\<close>

record demo =
  registry :: "BreakPoint list"
  stopped :: bool
  stepping :: bool

definition demo_var :: "string \<Rightarrow> string \<Rightarrow> Variable" where
  "demo_var n v = \<lparr>var_name = n, var_value = v, var_type = ''String'', var_object_id = 0,
                   var_has_children = False\<rparr>"

definition demo_engine :: "demo IDebugServer" where
  "demo_engine = \<lparr>
     AddBreakPoint = (\<lambda>bp a e.
        if (bp_file bp, bp_line bp) \<in> set (map (\<lambda>b. (bp_file b, bp_line b)) (registry e))
        then ((False, 0), e)
        else ((True, Suc (length (registry e))),
              e\<lparr>registry := registry e @ [bp\<lparr>bp_index := Suc (length (registry e))\<rparr>]\<rparr>)),
     RemoveBreakPoint = (\<lambda>i e.
        (i \<in> set (map bp_index (registry e)),
         e\<lparr>registry := filter (\<lambda>bp. bp_index bp \<noteq> i) (registry e)\<rparr>)),
     GetBreakPoints = registry,
     IsStopped = stopped,
     Step = (\<lambda>e. e\<lparr>stepping := True\<rparr>),
     StepOut = (\<lambda>e. e\<lparr>stepping := True\<rparr>),
     StepOver = (\<lambda>e. e\<lparr>stepping := True\<rparr>),
     Stop = (\<lambda>e. e\<lparr>stopped := False\<rparr>),
     GetStackFrames = (\<lambda>e. [\<lparr>sf_name = ''main'', sf_file = ''/x.rb'', sf_line = 10\<rparr>]),
     GetActiveFrameIndex = (\<lambda>e. 0),
     SetActiveFrameIndex = (\<lambda>i e. e),
     ShiftActiveFrame = (\<lambda>up e. e),
     GetLocalVariables = (\<lambda>e. [demo_var ''x'' ''1'']),
     GetGlobalVariables = (\<lambda>e. [demo_var ''$g'' ''a<b'']),
     GetInstanceVariables = (\<lambda>i e. []),
     EvaluateExpression = (\<lambda>x e. (demo_var ''eval'' x, e)),
     GetBreakLineNumber = (\<lambda>e. 10),
     GetCodeLines = (\<lambda>a b e. [])\<rparr>"

definition demo_stopped :: demo where
  "demo_stopped = \<lparr>registry = [], stopped = True, stepping = False\<rparr>"


definition rdip_start :: "demo rdip" where
  \<comment> \<open>The wire front-end as constructed, the engine stopped.\<close>
  "rdip_start = \<lparr>server = demo_stopped, server_can_continue = False, trace = [],
     server_response = None, process_server_response = None, expression_to_eval = [],
     variables_to_send = [], socket = [], logged = [], io_posted = []\<rparr>"

definition console_start :: "demo console_ui" where
  \<comment> \<open>The console front-end as constructed, the engine stopped.\<close>
  "console_start = \<lparr>server = demo_stopped, server_can_continue = False, trace = [],
     server_will_continue = False, need_server_response = False,
     need_what_from_server = NEED_NOTHING, expression_to_evaluate = [], cout = []\<rparr>"


section \<open>Reference definitions that follow the specification's words\<close>









section \<open>Properties of the front-ends\<close>

subsection \<open>The wire command \<^verbatim>\<open>exit\<close>\<close>

text \<open>
  Claim C6. On the wire, a command that reaches the branch of \<^verbatim>\<open>reg_exit\<close> first sets
  \<^verbatim>\<open>server_can_continue_\<close> and notifies the condition variable, and calls the engine's
  \<^verbatim>\<open>Stop\<close> only after that: \<open>Stop\<close> is applied to the state in which the flag is set and
  the notification has been given, and the trace of actions ends with the notification
  followed by the call.
\<close>

theorem wire_exit_signals_then_stops:
  assumes "regex_match cmd reg_brk = None" and "regex_match cmd reg_brk_del = None"
    and "\<not> matches cmd reg_start" and "\<not> matches cmd reg_cont" and "matches cmd reg_exit"
  shows "evaluateCommand E cmd s = Inr (emit Call_Stop ((signal s)\<lparr>server := Stop E (server s)\<rparr>))
       \<and> server_can_continue (signal s)
       \<and> trace (signal s) = trace s @ [notify_all]
       \<and> trace (emit Call_Stop ((signal s)\<lparr>server := Stop E (server s)\<rparr>))
           = trace s @ [notify_all, Call_Stop]"
  using assms by (simp add: evaluateCommand_def cmd_exit_def signal_def emit_def Let_def)

theorem wire_exit_witness:
  "evaluateCommand demo_engine ''exit'' rdip_start =
     Inr (rdip_start\<lparr>server := demo_stopped\<lparr>stopped := False\<rparr>, server_can_continue := True,
                     trace := [notify_all, Call_Stop]\<rparr>)"
proof -
  have 1: "regex_match ''exit'' reg_brk = None" by code_simp
  have 2: "regex_match ''exit'' reg_brk_del = None" by code_simp
  have 3: "\<not> matches ''exit'' reg_start" by code_simp
  have 4: "\<not> matches ''exit'' reg_cont" by code_simp
  have 5: "matches ''exit'' reg_exit" by code_simp
  show ?thesis
    using wire_exit_signals_then_stops [OF 1 2 3 4 5, of demo_engine rdip_start]
    by (simp add: signal_def emit_def rdip_start_def demo_engine_def)
qed

subsection \<open>The two chains of patterns, case by case\<close>

lemma evaluateCommand_cases:
  assumes "\<And>m. \<lbrakk>regex_match cmd reg_brk = Some m\<rbrakk>
      \<Longrightarrow> Q (cmd_brk E m)"
    and "\<And>m. \<lbrakk>regex_match cmd reg_brk = None;
        regex_match cmd reg_brk_del = Some m\<rbrakk>
      \<Longrightarrow> Q (cmd_brk_del E m)"
    and "\<lbrakk>regex_match cmd reg_brk = None;
        regex_match cmd reg_brk_del = None;
        matches cmd reg_start \<or> matches cmd reg_cont\<rbrakk>
      \<Longrightarrow> Q (\<lambda>s. Inr (signal s))"
    and "\<lbrakk>regex_match cmd reg_brk = None;
        regex_match cmd reg_brk_del = None;
        \<not> (matches cmd reg_start \<or> matches cmd reg_cont);
        matches cmd reg_exit\<rbrakk>
      \<Longrightarrow> Q (\<lambda>s. Inr (cmd_exit E s))"
    and "\<lbrakk>regex_match cmd reg_brk = None;
        regex_match cmd reg_brk_del = None;
        \<not> (matches cmd reg_start \<or> matches cmd reg_cont);
        \<not> matches cmd reg_exit;
        matches cmd reg_where\<rbrakk>
      \<Longrightarrow> Q (\<lambda>s. Inr (cmd_where E s))"
    and "\<lbrakk>regex_match cmd reg_brk = None;
        regex_match cmd reg_brk_del = None;
        \<not> (matches cmd reg_start \<or> matches cmd reg_cont);
        \<not> matches cmd reg_exit;
        \<not> matches cmd reg_where;
        matches cmd reg_thr_lst\<rbrakk>
      \<Longrightarrow> Q (\<lambda>s. Inr (cmd_thr_lst s))"
    and "\<And>m. \<lbrakk>regex_match cmd reg_brk = None;
        regex_match cmd reg_brk_del = None;
        \<not> (matches cmd reg_start \<or> matches cmd reg_cont);
        \<not> matches cmd reg_exit;
        \<not> matches cmd reg_where;
        \<not> matches cmd reg_thr_lst;
        regex_match cmd reg_frame = Some m\<rbrakk>
      \<Longrightarrow> Q (cmd_frame E m)"
    and "\<lbrakk>regex_match cmd reg_brk = None;
        regex_match cmd reg_brk_del = None;
        \<not> (matches cmd reg_start \<or> matches cmd reg_cont);
        \<not> matches cmd reg_exit;
        \<not> matches cmd reg_where;
        \<not> matches cmd reg_thr_lst;
        regex_match cmd reg_frame = None;
        matches cmd reg_step\<rbrakk>
      \<Longrightarrow> Q (\<lambda>s. Inr (signal (emit Call_Step (s\<lparr>server := Step E (server s)\<rparr>))))"
    and "\<lbrakk>regex_match cmd reg_brk = None;
        regex_match cmd reg_brk_del = None;
        \<not> (matches cmd reg_start \<or> matches cmd reg_cont);
        \<not> matches cmd reg_exit;
        \<not> matches cmd reg_where;
        \<not> matches cmd reg_thr_lst;
        regex_match cmd reg_frame = None;
        \<not> matches cmd reg_step;
        matches cmd reg_finish\<rbrakk>
      \<Longrightarrow> Q (\<lambda>s. Inr (signal (emit Call_StepOut (s\<lparr>server := StepOut E (server s)\<rparr>))))"
    and "\<lbrakk>regex_match cmd reg_brk = None;
        regex_match cmd reg_brk_del = None;
        \<not> (matches cmd reg_start \<or> matches cmd reg_cont);
        \<not> matches cmd reg_exit;
        \<not> matches cmd reg_where;
        \<not> matches cmd reg_thr_lst;
        regex_match cmd reg_frame = None;
        \<not> matches cmd reg_step;
        \<not> matches cmd reg_finish;
        matches cmd reg_next\<rbrakk>
      \<Longrightarrow> Q (\<lambda>s. Inr (signal (emit Call_StepOver (s\<lparr>server := StepOver E (server s)\<rparr>))))"
    and "\<And>m. \<lbrakk>regex_match cmd reg_brk = None;
        regex_match cmd reg_brk_del = None;
        \<not> (matches cmd reg_start \<or> matches cmd reg_cont);
        \<not> matches cmd reg_exit;
        \<not> matches cmd reg_where;
        \<not> matches cmd reg_thr_lst;
        regex_match cmd reg_frame = None;
        \<not> matches cmd reg_step;
        \<not> matches cmd reg_finish;
        \<not> matches cmd reg_next;
        regex_search cmd reg_var_inspect = Some m\<rbrakk>
      \<Longrightarrow> Q (\<lambda>s. Inr (request bind_evalExpression (bind_sendVariables ''watch'')
                        (s\<lparr>expression_to_eval := suffix m\<rparr>)))"
    and "\<lbrakk>regex_match cmd reg_brk = None;
        regex_match cmd reg_brk_del = None;
        \<not> (matches cmd reg_start \<or> matches cmd reg_cont);
        \<not> matches cmd reg_exit;
        \<not> matches cmd reg_where;
        \<not> matches cmd reg_thr_lst;
        regex_match cmd reg_frame = None;
        \<not> matches cmd reg_step;
        \<not> matches cmd reg_finish;
        \<not> matches cmd reg_next;
        regex_search cmd reg_var_inspect = None;
        matches cmd reg_var_local\<rbrakk>
      \<Longrightarrow> Q (\<lambda>s. Inr (request (bind_getVariables True) (bind_sendVariables ''local'') s))"
    and "\<lbrakk>regex_match cmd reg_brk = None;
        regex_match cmd reg_brk_del = None;
        \<not> (matches cmd reg_start \<or> matches cmd reg_cont);
        \<not> matches cmd reg_exit;
        \<not> matches cmd reg_where;
        \<not> matches cmd reg_thr_lst;
        regex_match cmd reg_frame = None;
        \<not> matches cmd reg_step;
        \<not> matches cmd reg_finish;
        \<not> matches cmd reg_next;
        regex_search cmd reg_var_inspect = None;
        \<not> matches cmd reg_var_local;
        matches cmd reg_var_global\<rbrakk>
      \<Longrightarrow> Q (\<lambda>s. Inr (request (bind_getVariables False) (bind_sendVariables ''global'') s))"
    and "\<And>m. \<lbrakk>regex_match cmd reg_brk = None;
        regex_match cmd reg_brk_del = None;
        \<not> (matches cmd reg_start \<or> matches cmd reg_cont);
        \<not> matches cmd reg_exit;
        \<not> matches cmd reg_where;
        \<not> matches cmd reg_thr_lst;
        regex_match cmd reg_frame = None;
        \<not> matches cmd reg_step;
        \<not> matches cmd reg_finish;
        \<not> matches cmd reg_next;
        regex_search cmd reg_var_inspect = None;
        \<not> matches cmd reg_var_local;
        \<not> matches cmd reg_var_global;
        regex_match cmd reg_var_instance = Some m\<rbrakk>
      \<Longrightarrow> Q (\<lambda>s. Inr (cmd_var_instance m s))"
    and "\<lbrakk>regex_match cmd reg_brk = None;
        regex_match cmd reg_brk_del = None;
        \<not> (matches cmd reg_start \<or> matches cmd reg_cont);
        \<not> matches cmd reg_exit;
        \<not> matches cmd reg_where;
        \<not> matches cmd reg_thr_lst;
        regex_match cmd reg_frame = None;
        \<not> matches cmd reg_step;
        \<not> matches cmd reg_finish;
        \<not> matches cmd reg_next;
        regex_search cmd reg_var_inspect = None;
        \<not> matches cmd reg_var_local;
        \<not> matches cmd reg_var_global;
        regex_match cmd reg_var_instance = None\<rbrakk>
      \<Longrightarrow> Q (\<lambda>s. Inr (Log [NL] (Log cmd (Log ''Unknown command : '' s))))"
  shows "Q (evaluateCommand E cmd)"
proof -
  show ?thesis
  proof (cases "regex_match cmd reg_brk")
    case (Some m)
    have "evaluateCommand E cmd = (cmd_brk E m)"
      by (rule ext, unfold evaluateCommand_def) (simp only: Some if_True if_False option.case simp_thms)
    with assms(1) [OF Some] show ?thesis by simp
  next
    case c0: None
    show ?thesis
    proof (cases "regex_match cmd reg_brk_del")
      case (Some m)
      have "evaluateCommand E cmd = (cmd_brk_del E m)"
        by (rule ext, unfold evaluateCommand_def) (simp only: c0 Some if_True if_False option.case simp_thms)
      with assms(2) [OF c0 Some] show ?thesis by simp
    next
      case c1: None
      show ?thesis
      proof (cases "matches cmd reg_start \<or> matches cmd reg_cont")
        case True
        have "evaluateCommand E cmd = (\<lambda>s. Inr (signal s))"
          by (rule ext, unfold evaluateCommand_def) (simp only: c0 c1 True if_True if_False option.case simp_thms)
        with assms(3) [OF c0 c1 True] show ?thesis by simp
      next
        case c2: False
        show ?thesis
        proof (cases "matches cmd reg_exit")
          case True
          have "evaluateCommand E cmd = (\<lambda>s. Inr (cmd_exit E s))"
            by (rule ext, unfold evaluateCommand_def) (simp only: c0 c1 c2 True if_True if_False option.case simp_thms)
          with assms(4) [OF c0 c1 c2 True] show ?thesis by simp
        next
          case c3: False
          show ?thesis
          proof (cases "matches cmd reg_where")
            case True
            have "evaluateCommand E cmd = (\<lambda>s. Inr (cmd_where E s))"
              by (rule ext, unfold evaluateCommand_def) (simp only: c0 c1 c2 c3 True if_True if_False option.case simp_thms)
            with assms(5) [OF c0 c1 c2 c3 True] show ?thesis by simp
          next
            case c4: False
            show ?thesis
            proof (cases "matches cmd reg_thr_lst")
              case True
              have "evaluateCommand E cmd = (\<lambda>s. Inr (cmd_thr_lst s))"
                by (rule ext, unfold evaluateCommand_def) (simp only: c0 c1 c2 c3 c4 True if_True if_False option.case simp_thms)
              with assms(6) [OF c0 c1 c2 c3 c4 True] show ?thesis by simp
            next
              case c5: False
              show ?thesis
              proof (cases "regex_match cmd reg_frame")
                case (Some m)
                have "evaluateCommand E cmd = (cmd_frame E m)"
                  by (rule ext, unfold evaluateCommand_def) (simp only: c0 c1 c2 c3 c4 c5 Some if_True if_False option.case simp_thms)
                with assms(7) [OF c0 c1 c2 c3 c4 c5 Some] show ?thesis by simp
              next
                case c6: None
                show ?thesis
                proof (cases "matches cmd reg_step")
                  case True
                  have "evaluateCommand E cmd = (\<lambda>s. Inr (signal (emit Call_Step (s\<lparr>server := Step E (server s)\<rparr>))))"
                    by (rule ext, unfold evaluateCommand_def) (simp only: c0 c1 c2 c3 c4 c5 c6 True if_True if_False option.case simp_thms)
                  with assms(8) [OF c0 c1 c2 c3 c4 c5 c6 True] show ?thesis by simp
                next
                  case c7: False
                  show ?thesis
                  proof (cases "matches cmd reg_finish")
                    case True
                    have "evaluateCommand E cmd = (\<lambda>s. Inr (signal (emit Call_StepOut (s\<lparr>server := StepOut E (server s)\<rparr>))))"
                      by (rule ext, unfold evaluateCommand_def) (simp only: c0 c1 c2 c3 c4 c5 c6 c7 True if_True if_False option.case simp_thms)
                    with assms(9) [OF c0 c1 c2 c3 c4 c5 c6 c7 True] show ?thesis by simp
                  next
                    case c8: False
                    show ?thesis
                    proof (cases "matches cmd reg_next")
                      case True
                      have "evaluateCommand E cmd = (\<lambda>s. Inr (signal (emit Call_StepOver (s\<lparr>server := StepOver E (server s)\<rparr>))))"
                        by (rule ext, unfold evaluateCommand_def) (simp only: c0 c1 c2 c3 c4 c5 c6 c7 c8 True if_True if_False option.case simp_thms)
                      with assms(10) [OF c0 c1 c2 c3 c4 c5 c6 c7 c8 True] show ?thesis by simp
                    next
                      case c9: False
                      show ?thesis
                      proof (cases "regex_search cmd reg_var_inspect")
                        case (Some m)
                        have "evaluateCommand E cmd = (\<lambda>s. Inr (request bind_evalExpression (bind_sendVariables ''watch'')
                        (s\<lparr>expression_to_eval := suffix m\<rparr>)))"
                          by (rule ext, unfold evaluateCommand_def) (simp only: c0 c1 c2 c3 c4 c5 c6 c7 c8 c9 Some if_True if_False option.case simp_thms)
                        with assms(11) [OF c0 c1 c2 c3 c4 c5 c6 c7 c8 c9 Some] show ?thesis by simp
                      next
                        case c10: None
                        show ?thesis
                        proof (cases "matches cmd reg_var_local")
                          case True
                          have "evaluateCommand E cmd = (\<lambda>s. Inr (request (bind_getVariables True) (bind_sendVariables ''local'') s))"
                            by (rule ext, unfold evaluateCommand_def) (simp only: c0 c1 c2 c3 c4 c5 c6 c7 c8 c9 c10 True if_True if_False option.case simp_thms)
                          with assms(12) [OF c0 c1 c2 c3 c4 c5 c6 c7 c8 c9 c10 True] show ?thesis by simp
                        next
                          case c11: False
                          show ?thesis
                          proof (cases "matches cmd reg_var_global")
                            case True
                            have "evaluateCommand E cmd = (\<lambda>s. Inr (request (bind_getVariables False) (bind_sendVariables ''global'') s))"
                              by (rule ext, unfold evaluateCommand_def) (simp only: c0 c1 c2 c3 c4 c5 c6 c7 c8 c9 c10 c11 True if_True if_False option.case simp_thms)
                            with assms(13) [OF c0 c1 c2 c3 c4 c5 c6 c7 c8 c9 c10 c11 True] show ?thesis by simp
                          next
                            case c12: False
                            show ?thesis
                            proof (cases "regex_match cmd reg_var_instance")
                              case (Some m)
                              have "evaluateCommand E cmd = (\<lambda>s. Inr (cmd_var_instance m s))"
                                by (rule ext, unfold evaluateCommand_def) (simp only: c0 c1 c2 c3 c4 c5 c6 c7 c8 c9 c10 c11 c12 Some if_True if_False option.case simp_thms)
                              with assms(14) [OF c0 c1 c2 c3 c4 c5 c6 c7 c8 c9 c10 c11 c12 Some] show ?thesis by simp
                            next
                              case c13: None
                              have "evaluateCommand E cmd = (\<lambda>s. Inr (Log [NL] (Log cmd (Log ''Unknown command : '' s))))"
                                by (rule ext, unfold evaluateCommand_def) (simp only: c0 c1 c2 c3 c4 c5 c6 c7 c8 c9 c10 c11 c12 c13 if_True if_False option.case simp_thms)
                              with assms(15) [OF c0 c1 c2 c3 c4 c5 c6 c7 c8 c9 c10 c11 c12 c13] show ?thesis by simp
                            qed
                          qed
                        qed
                      qed
                    qed
                  qed
                qed
              qed
            qed
          qed
        qed
      qed
    qed
  qed
qed

subsection \<open>What the helpers of the wire front-end change\<close>

lemma Log_fields [simp]:
  "server (Log msg s) = server s"
  "server_can_continue (Log msg s) = server_can_continue s"
  "trace (Log msg s) = trace s"
  "server_response (Log msg s) = server_response s"
  "process_server_response (Log msg s) = process_server_response s"
  "expression_to_eval (Log msg s) = expression_to_eval s"
  "variables_to_send (Log msg s) = variables_to_send s"
  "socket (Log msg s) = socket s"
  "logged (Log msg s) = logged s @ msg"
  "io_posted (Log msg s) = io_posted s"
  by (simp_all add: Log_def)

lemma send_fields [simp]:
  "server (send buf s) = server s"
  "server_can_continue (send buf s) = server_can_continue s"
  "trace (send buf s) = trace s"
  "server_response (send buf s) = server_response s"
  "process_server_response (send buf s) = process_server_response s"
  "expression_to_eval (send buf s) = expression_to_eval s"
  "variables_to_send (send buf s) = variables_to_send s"
  "socket (send buf s) = socket s @ buf"
  "logged (send buf s) = logged s"
  "io_posted (send buf s) = io_posted s"
  by (simp_all add: send_def)

lemma emit_rdip_fields [simp]:
  "server (emit ev s) = server s"
  "server_can_continue (emit ev s) = server_can_continue s"
  "trace (emit ev s) = trace s @ [ev]"
  "server_response (emit ev (s :: 'e rdip)) = server_response s"
  "process_server_response (emit ev (s :: 'e rdip)) = process_server_response s"
  "expression_to_eval (emit ev (s :: 'e rdip)) = expression_to_eval s"
  "variables_to_send (emit ev (s :: 'e rdip)) = variables_to_send s"
  "socket (emit ev (s :: 'e rdip)) = socket s"
  "logged (emit ev (s :: 'e rdip)) = logged s"
  "io_posted (emit ev (s :: 'e rdip)) = io_posted s"
  by (simp_all add: emit_def)

lemma signal_fields [simp]:
  "server (signal s) = server s"
  "server_can_continue (signal s) = True"
  "trace (signal s) = trace s @ [notify_all]"
  "server_response (signal s) = server_response s"
  "process_server_response (signal s) = process_server_response s"
  "expression_to_eval (signal s) = expression_to_eval s"
  "variables_to_send (signal s) = variables_to_send s"
  "socket (signal s) = socket s"
  "logged (signal s) = logged s"
  "io_posted (signal s) = io_posted s"
  by (simp_all add: signal_def emit_def)

lemma request_fields [simp]:
  "server (request t a s) = server s"
  "server_can_continue (request t a s) = server_can_continue s"
  "trace (request t a s) = trace s @ [notify_all]"
  "server_response (request t a s) = Some t"
  "process_server_response (request t a s) = Some a"
  "expression_to_eval (request t a s) = expression_to_eval s"
  "variables_to_send (request t a s) = variables_to_send s"
  "socket (request t a s) = socket s"
  "logged (request t a s) = logged s"
  "io_posted (request t a s) = io_posted s"
  by (simp_all add: request_def emit_def)

subsection \<open>The console prompt\<close>

lemma cout_put [simp]: "cout (put t s) = cout s @ t"
  by (simp add: put_def)

lemma server_put [simp]: "server (put t s) = server s"
  by (simp add: put_def)

lemma nsr_put [simp]: "need_server_response (put t s) = need_server_response s"
  by (simp add: put_def)

lemma fold_put_prefix:
  "prefix (cout s) (cout (fold (\<lambda>x. put (f x)) xs s))"
proof (induction xs arbitrary: s)
  case Nil
  show ?case by simp
next
  case (Cons x xs)
  have "prefix (cout s) (cout (put (f x) s))" by simp
  also have "prefix \<dots> (cout (fold (\<lambda>x. put (f x)) xs (put (f x) s)))" by (rule Cons.IH)
  finally show ?case by simp
qed

lemma fold_put_server [simp]:
  "server (fold (\<lambda>x. put (f x)) xs s) = server s"
  by (induction xs arbitrary: s) simp_all

lemma fold_put_nsr [simp]:
  "need_server_response (fold (\<lambda>x. put (f x)) xs s) = need_server_response s"
  by (induction xs arbitrary: s) simp_all

lemma WriteText_cout [simp]: "cout (WriteText m s) = cout s @ [NL] @ m @ [NL]"
  by (simp add: WriteText_def)

lemma WriteBreakPoint_is_put:
  "WriteBreakPoint = (\<lambda>bp. put (''  '' @ show_nat (bp_index bp) @ '' '' @ bp_file bp @ '':'' @ show_nat (bp_line bp) @ [NL]))"
  by (rule ext)+ (simp add: WriteBreakPoint_def)

lemma WriteBreakPoints_prefix: "prefix (cout s) (cout (WriteBreakPoints bps s))"
proof (cases "bps = []")
  case True
  then show ?thesis by (simp add: WriteBreakPoints_def)
next
  case False
  have "prefix (cout s) (cout (WriteText ''Breakpoints:'' s))" by simp
  also have "prefix \<dots> (cout (fold WriteBreakPoint bps (WriteText ''Breakpoints:'' s)))"
    unfolding WriteBreakPoint_is_put by (rule fold_put_prefix)
  finally show ?thesis using False by (simp add: WriteBreakPoints_def)
qed

lemma WriteFrames_prefix: "prefix (cout s) (cout (WriteFrames E s))"
proof -
  have "prefix (cout s) (cout (put [NL] s))" by simp
  also have "prefix \<dots> (cout (WriteFrames E s))"
    unfolding WriteFrames_def Let_def by (rule fold_put_prefix)
  finally show ?thesis .
qed

lemma WriteCodeLines_prefix: "prefix (cout s) (cout (WriteCodeLines E s))"
proof -
  have "prefix (cout s) (cout (put [NL] s))" by simp
  also have "prefix \<dots> (cout (WriteCodeLines E s))"
    unfolding WriteCodeLines_def Let_def by (rule fold_put_prefix)
  finally show ?thesis .
qed

lemma flag_simps [simp]:
  "is_legal_command illegal = False" "signal_server_can_continue illegal = False" "write_prompt illegal = True"
  "is_legal_command legal = True" "signal_server_can_continue legal = False" "write_prompt legal = True"
  "is_legal_command resuming = True" "signal_server_can_continue resuming = True" "write_prompt resuming = True"
  "is_legal_command deferred = True" "signal_server_can_continue deferred = False" "write_prompt deferred = False"
  by (simp_all add: illegal_def legal_def resuming_def deferred_def)

lemma swc_put [simp]: "server_will_continue (put t s) = server_will_continue s"
  by (simp add: put_def)

lemma fold_put_swc [simp]:
  "server_will_continue (fold (\<lambda>x. put (f x)) xs s) = server_will_continue s"
  by (induction xs arbitrary: s) simp_all

lemma WriteText_fields [simp]:
  "server (WriteText m s) = server s"
  "need_server_response (WriteText m s) = need_server_response s"
  "server_will_continue (WriteText m s) = server_will_continue s"
  by (simp_all add: WriteText_def)

lemma WriteBreakPoint_fields [simp]:
  "cout (WriteBreakPoint bp s) = cout s @ ''  '' @ show_nat (bp_index bp) @ '' '' @ bp_file bp
      @ '':'' @ show_nat (bp_line bp) @ [NL]"
  "need_server_response (WriteBreakPoint bp s) = need_server_response s"
  "server_will_continue (WriteBreakPoint bp s) = server_will_continue s"
  by (simp_all add: WriteBreakPoint_def)

lemma WriteBreakPoints_fields [simp]:
  "need_server_response (WriteBreakPoints bps s) = need_server_response s"
  "server_will_continue (WriteBreakPoints bps s) = server_will_continue s"
  unfolding WriteBreakPoints_def WriteBreakPoint_is_put by simp_all

lemma WriteFrames_fields [simp]:
  "need_server_response (WriteFrames E s) = need_server_response s"
  "server_will_continue (WriteFrames E s) = server_will_continue s"
  by (simp_all add: WriteFrames_def Let_def)

lemma WriteCodeLines_fields [simp]:
  "need_server_response (WriteCodeLines E s) = need_server_response s"
  "server_will_continue (WriteCodeLines E s) = server_will_continue s"
  by (simp_all add: WriteCodeLines_def Let_def)

lemma PrintHelp_fields [simp]:
  "cout (PrintHelp s) = cout s @ [NL] @ help_text"
  "need_server_response (PrintHelp s) = need_server_response s"
  "server_will_continue (PrintHelp s) = server_will_continue s"
  by (simp_all add: PrintHelp_def)

lemma emit_fields [simp]:
  "cout (emit ev s) = cout s"
  "need_server_response (emit ev s) = need_server_response s"
  "server_will_continue (emit ev s) = server_will_continue s"
  by (simp_all add: emit_def)

lemma ui_brk_del_facts:
  "prefix (cout s) (cout (snd (ui_brk_del E m s)))"
  "server_will_continue (snd (ui_brk_del E m s)) = server_will_continue s"
  "need_server_response (snd (ui_brk_del E m s)) = need_server_response s"
  "write_prompt (fst (ui_brk_del E m s))"
  "\<not> signal_server_can_continue (fst (ui_brk_del E m s))"
  by (simp_all add: ui_brk_del_def Let_def split: sum.split prod.split)

lemma ui_brk_facts:
  "prefix (cout s) (cout (snd (ui_brk E m s)))"
  "server_will_continue (snd (ui_brk E m s)) = server_will_continue s"
  "need_server_response (snd (ui_brk E m s)) = need_server_response s"
  "write_prompt (fst (ui_brk E m s))"
  "\<not> signal_server_can_continue (fst (ui_brk E m s))"
  by (simp_all add: ui_brk_def Let_def split: sum.split prod.split)

lemma ui_step_facts:
  "cout (snd (ui_step E m s)) = cout s"
  "server_will_continue (snd (ui_step E m s)) = server_will_continue s"
  "need_server_response (snd (ui_step E m s)) = need_server_response s"
  "write_prompt (fst (ui_step E m s))"
  "signal_server_can_continue (fst (ui_step E m s))"
  by (simp_all add: ui_step_def)

lemma ui_var_facts:
  "cout (snd (ui_var m s)) = cout s"
  "server_will_continue (snd (ui_var m s)) = server_will_continue s"
  "\<not> need_server_response s \<Longrightarrow>
     write_prompt (fst (ui_var m s)) = (\<not> need_server_response (snd (ui_var m s)))"
  "\<not> signal_server_can_continue (fst (ui_var m s))"
  by (simp_all add: ui_var_def Let_def)

lemma ui_chain_cases:
  assumes "\<lbrakk>matches line reg_brk_list\<rbrakk>
      \<Longrightarrow> P (legal, WriteBreakPoints (GetBreakPoints E (server s)) s)"
    and "\<And>m. \<lbrakk>\<not> matches line reg_brk_list;
        regex_match line reg_brk_del = Some m\<rbrakk>
      \<Longrightarrow> P (ui_brk_del E m s)"
    and "\<And>m. \<lbrakk>\<not> matches line reg_brk_list;
        regex_match line reg_brk_del = None;
        regex_match line reg_brk = Some m\<rbrakk>
      \<Longrightarrow> P (ui_brk E m s)"
    and "\<lbrakk>\<not> matches line reg_brk_list;
        regex_match line reg_brk_del = None;
        regex_match line reg_brk = None;
        matches line reg_cont\<rbrakk>
      \<Longrightarrow> P (resuming, s)"
    and "\<And>m. \<lbrakk>\<not> matches line reg_brk_list;
        regex_match line reg_brk_del = None;
        regex_match line reg_brk = None;
        \<not> matches line reg_cont;
        regex_search line reg_step = Some m\<rbrakk>
      \<Longrightarrow> P (ui_step E m s)"
    and "\<lbrakk>\<not> matches line reg_brk_list;
        regex_match line reg_brk_del = None;
        regex_match line reg_brk = None;
        \<not> matches line reg_cont;
        regex_search line reg_step = None;
        matches line reg_next\<rbrakk>
      \<Longrightarrow> P (resuming, emit Call_StepOver (s\<lparr>server := StepOver E (server s)\<rparr>))"
    and "\<lbrakk>\<not> matches line reg_brk_list;
        regex_match line reg_brk_del = None;
        regex_match line reg_brk = None;
        \<not> matches line reg_cont;
        regex_search line reg_step = None;
        \<not> matches line reg_next;
        matches line reg_help\<rbrakk>
      \<Longrightarrow> P (legal, PrintHelp s)"
    and "\<lbrakk>\<not> matches line reg_brk_list;
        regex_match line reg_brk_del = None;
        regex_match line reg_brk = None;
        \<not> matches line reg_cont;
        regex_search line reg_step = None;
        \<not> matches line reg_next;
        \<not> matches line reg_help;
        matches line reg_up\<rbrakk>
      \<Longrightarrow> P (legal, WriteFrames E (emit (Call_ShiftActiveFrame True)
                 (s\<lparr>server := ShiftActiveFrame E True (server s)\<rparr>)))"
    and "\<lbrakk>\<not> matches line reg_brk_list;
        regex_match line reg_brk_del = None;
        regex_match line reg_brk = None;
        \<not> matches line reg_cont;
        regex_search line reg_step = None;
        \<not> matches line reg_next;
        \<not> matches line reg_help;
        \<not> matches line reg_up;
        matches line reg_down\<rbrakk>
      \<Longrightarrow> P (legal, WriteFrames E (emit (Call_ShiftActiveFrame False)
                 (s\<lparr>server := ShiftActiveFrame E False (server s)\<rparr>)))"
    and "\<lbrakk>\<not> matches line reg_brk_list;
        regex_match line reg_brk_del = None;
        regex_match line reg_brk = None;
        \<not> matches line reg_cont;
        regex_search line reg_step = None;
        \<not> matches line reg_next;
        \<not> matches line reg_help;
        \<not> matches line reg_up;
        \<not> matches line reg_down;
        matches line reg_where \<or> matches line ui_reg_frame\<rbrakk>
      \<Longrightarrow> P (legal, WriteFrames E s)"
    and "\<lbrakk>\<not> matches line reg_brk_list;
        regex_match line reg_brk_del = None;
        regex_match line reg_brk = None;
        \<not> matches line reg_cont;
        regex_search line reg_step = None;
        \<not> matches line reg_next;
        \<not> matches line reg_help;
        \<not> matches line reg_up;
        \<not> matches line reg_down;
        \<not> (matches line reg_where \<or> matches line ui_reg_frame);
        matches line reg_list\<rbrakk>
      \<Longrightarrow> P (legal, WriteCodeLines E s)"
    and "\<And>m. \<lbrakk>\<not> matches line reg_brk_list;
        regex_match line reg_brk_del = None;
        regex_match line reg_brk = None;
        \<not> matches line reg_cont;
        regex_search line reg_step = None;
        \<not> matches line reg_next;
        \<not> matches line reg_help;
        \<not> matches line reg_up;
        \<not> matches line reg_down;
        \<not> (matches line reg_where \<or> matches line ui_reg_frame);
        \<not> matches line reg_list;
        regex_search line reg_eval = Some m\<rbrakk>
      \<Longrightarrow> P (deferred, s\<lparr>expression_to_evaluate := suffix m,
                                need_what_from_server := NEED_EVAL,
                                need_server_response := True\<rparr>)"
    and "\<And>m. \<lbrakk>\<not> matches line reg_brk_list;
        regex_match line reg_brk_del = None;
        regex_match line reg_brk = None;
        \<not> matches line reg_cont;
        regex_search line reg_step = None;
        \<not> matches line reg_next;
        \<not> matches line reg_help;
        \<not> matches line reg_up;
        \<not> matches line reg_down;
        \<not> (matches line reg_where \<or> matches line ui_reg_frame);
        \<not> matches line reg_list;
        regex_search line reg_eval = None;
        regex_search line reg_var = Some m\<rbrakk>
      \<Longrightarrow> P (ui_var m s)"
    and "\<lbrakk>\<not> matches line reg_brk_list;
        regex_match line reg_brk_del = None;
        regex_match line reg_brk = None;
        \<not> matches line reg_cont;
        regex_search line reg_step = None;
        \<not> matches line reg_next;
        \<not> matches line reg_help;
        \<not> matches line reg_up;
        \<not> matches line reg_down;
        \<not> (matches line reg_where \<or> matches line ui_reg_frame);
        \<not> matches line reg_list;
        regex_search line reg_eval = None;
        regex_search line reg_var = None;
        line \<noteq> []\<rbrakk>
      \<Longrightarrow> P (deferred, s\<lparr>expression_to_evaluate := line, need_server_response := True\<rparr>)"
    and "\<lbrakk>\<not> matches line reg_brk_list;
        regex_match line reg_brk_del = None;
        regex_match line reg_brk = None;
        \<not> matches line reg_cont;
        regex_search line reg_step = None;
        \<not> matches line reg_next;
        \<not> matches line reg_help;
        \<not> matches line reg_up;
        \<not> matches line reg_down;
        \<not> (matches line reg_where \<or> matches line ui_reg_frame);
        \<not> matches line reg_list;
        regex_search line reg_eval = None;
        regex_search line reg_var = None;
        line = []\<rbrakk>
      \<Longrightarrow> P (illegal, s)"
  shows "P (ui_chain E line s)"
proof -
  show ?thesis
  proof (cases "matches line reg_brk_list")
    case True
    show ?thesis unfolding ui_chain_def by (simp only:  True if_True if_False option.case simp_thms) (rule assms(1) [OF  True])
  next
    case c0: False
    show ?thesis
    proof (cases "regex_match line reg_brk_del")
      case (Some m)
      show ?thesis unfolding ui_chain_def by (simp only: c0 Some if_True if_False option.case simp_thms) (rule assms(2) [OF c0 Some])
    next
      case c1: None
      show ?thesis
      proof (cases "regex_match line reg_brk")
        case (Some m)
        show ?thesis unfolding ui_chain_def by (simp only: c0 c1 Some if_True if_False option.case simp_thms) (rule assms(3) [OF c0 c1 Some])
      next
        case c2: None
        show ?thesis
        proof (cases "matches line reg_cont")
          case True
          show ?thesis unfolding ui_chain_def by (simp only: c0 c1 c2 True if_True if_False option.case simp_thms) (rule assms(4) [OF c0 c1 c2 True])
        next
          case c3: False
          show ?thesis
          proof (cases "regex_search line reg_step")
            case (Some m)
            show ?thesis unfolding ui_chain_def by (simp only: c0 c1 c2 c3 Some if_True if_False option.case simp_thms) (rule assms(5) [OF c0 c1 c2 c3 Some])
          next
            case c4: None
            show ?thesis
            proof (cases "matches line reg_next")
              case True
              show ?thesis unfolding ui_chain_def by (simp only: c0 c1 c2 c3 c4 True if_True if_False option.case simp_thms) (rule assms(6) [OF c0 c1 c2 c3 c4 True])
            next
              case c5: False
              show ?thesis
              proof (cases "matches line reg_help")
                case True
                show ?thesis unfolding ui_chain_def by (simp only: c0 c1 c2 c3 c4 c5 True if_True if_False option.case simp_thms) (rule assms(7) [OF c0 c1 c2 c3 c4 c5 True])
              next
                case c6: False
                show ?thesis
                proof (cases "matches line reg_up")
                  case True
                  show ?thesis unfolding ui_chain_def by (simp only: c0 c1 c2 c3 c4 c5 c6 True if_True if_False option.case simp_thms) (rule assms(8) [OF c0 c1 c2 c3 c4 c5 c6 True])
                next
                  case c7: False
                  show ?thesis
                  proof (cases "matches line reg_down")
                    case True
                    show ?thesis unfolding ui_chain_def by (simp only: c0 c1 c2 c3 c4 c5 c6 c7 True if_True if_False option.case simp_thms) (rule assms(9) [OF c0 c1 c2 c3 c4 c5 c6 c7 True])
                  next
                    case c8: False
                    show ?thesis
                    proof (cases "matches line reg_where \<or> matches line ui_reg_frame")
                      case True
                      show ?thesis unfolding ui_chain_def by (simp only: c0 c1 c2 c3 c4 c5 c6 c7 c8 True if_True if_False option.case simp_thms) (rule assms(10) [OF c0 c1 c2 c3 c4 c5 c6 c7 c8 True])
                    next
                      case c9: False
                      show ?thesis
                      proof (cases "matches line reg_list")
                        case True
                        show ?thesis unfolding ui_chain_def by (simp only: c0 c1 c2 c3 c4 c5 c6 c7 c8 c9 True if_True if_False option.case simp_thms) (rule assms(11) [OF c0 c1 c2 c3 c4 c5 c6 c7 c8 c9 True])
                      next
                        case c10: False
                        show ?thesis
                        proof (cases "regex_search line reg_eval")
                          case (Some m)
                          show ?thesis unfolding ui_chain_def by (simp only: c0 c1 c2 c3 c4 c5 c6 c7 c8 c9 c10 Some if_True if_False option.case simp_thms) (rule assms(12) [OF c0 c1 c2 c3 c4 c5 c6 c7 c8 c9 c10 Some])
                        next
                          case c11: None
                          show ?thesis
                          proof (cases "regex_search line reg_var")
                            case (Some m)
                            show ?thesis unfolding ui_chain_def by (simp only: c0 c1 c2 c3 c4 c5 c6 c7 c8 c9 c10 c11 Some if_True if_False option.case simp_thms) (rule assms(13) [OF c0 c1 c2 c3 c4 c5 c6 c7 c8 c9 c10 c11 Some])
                          next
                            case c12: None
                            show ?thesis
                            proof (cases "line = []")
                              case True
                              show ?thesis unfolding ui_chain_def by (simp only: c0 c1 c2 c3 c4 c5 c6 c7 c8 c9 c10 c11 c12 if_True if_False option.case simp_thms, simp only: True if_True if_False option.case simp_thms) (rule assms(15) [OF c0 c1 c2 c3 c4 c5 c6 c7 c8 c9 c10 c11 c12 True])
                            next
                              case False
                              show ?thesis unfolding ui_chain_def by (simp only: c0 c1 c2 c3 c4 c5 c6 c7 c8 c9 c10 c11 c12 False if_True if_False option.case simp_thms) (rule assms(14) [OF c0 c1 c2 c3 c4 c5 c6 c7 c8 c9 c10 c11 c12 False])
                            qed
                          qed
                        qed
                      qed
                    qed
                  qed
                qed
              qed
            qed
          qed
        qed
      qed
    qed
  qed
qed

lemma ui_chain_prefix:
  "prefix (cout s) (cout (snd (ui_chain E line s)))"
  by (rule ui_chain_cases)
     (simp_all add: WriteBreakPoints_prefix WriteFrames_prefix WriteCodeLines_prefix
        ui_brk_del_facts ui_brk_facts ui_step_facts ui_var_facts
        prefix_order.order_trans [OF _ WriteFrames_prefix])

lemma ui_chain_swc:
  "server_will_continue (snd (ui_chain E line s)) = server_will_continue s"
  by (rule ui_chain_cases)
     (simp_all add: ui_brk_del_facts ui_brk_facts ui_step_facts ui_var_facts)

lemma ui_chain_write_prompt:
  "\<not> need_server_response s \<Longrightarrow>
     write_prompt (fst (ui_chain E line s)) = (\<not> need_server_response (snd (ui_chain E line s)))"
  by (rule ui_chain_cases)
     (simp_all add: ui_brk_del_facts ui_brk_facts ui_step_facts ui_var_facts)

lemma ui_chain_signal:
  "signal_server_can_continue (fst (ui_chain E line s)) = requests_resumption line"
  by (rule ui_chain_cases)
     (simp_all add: requests_resumption_def ui_brk_del_facts ui_brk_facts ui_step_facts
        ui_var_facts)

lemma ui_finish_cout:
  "\<not> server_will_continue s \<Longrightarrow> cout (ui_finish E f s) = cout s
     @ (if is_legal_command f then [] else [NL] @ ''Illegal command'' @ [NL])
     @ (if write_prompt f
        then [NL] @ ''sudb (''
             @ (if signal_server_can_continue f \<or> \<not> IsStopped E (server s) then ''running'' else ''stopped'')
             @ ''): ''
        else [])"
  by (simp add: ui_finish_def Let_def WritePrompt_def WriteText_def emit_def put_def)

lemma ui_finish_fields:
  "server (ui_finish E f s) = server s"
  "need_server_response (ui_finish E f s) = need_server_response s"
  "server_will_continue (ui_finish E f s) = False"
  by (simp_all add: ui_finish_def Let_def WritePrompt_def WriteText_def emit_def put_def)

text \<open>
  Claim C7. A console command that is executed locally (no response of the interpreter
  thread is asked for) ends with the prompt \<^verbatim>\<open>sudb (<state>): \<close> after a line break, where
  the state is \<^verbatim>\<open>running\<close> if and only if the engine is not stopped or the command asked
  for resumption (continue, step, step out, step over), and \<^verbatim>\<open>stopped\<close> otherwise; so
  after a resumption command it reads \<^verbatim>\<open>running\<close> even while the engine still reports
  that it is stopped. The flag \<^verbatim>\<open>server_will_continue_\<close> is false when the front-end is
  constructed and false again after every command.
\<close>

theorem console_prompt_after_local_command:
  assumes "EvaluateCommand E line s = (ok, s')" and "\<not> need_server_response s'"
    and "\<not> server_will_continue s"
  shows "(\<exists>text. cout s' = cout s @ text @ [NL] @ ''sudb (''
           @ (if requests_resumption line \<or> \<not> IsStopped E (server s') then ''running'' else ''stopped'')
           @ ''): '')
       \<and> \<not> server_will_continue s'"
proof -
  define s0 where "s0 = s\<lparr>need_server_response := False, need_what_from_server := NEED_NOTHING,
                expression_to_evaluate := []\<rparr>"
  define f where "f = fst (ui_chain E line s0)"
  define s1 where "s1 = snd (ui_chain E line s0)"
  have s': "s' = ui_finish E f s1"
    using assms(1) by (simp add: EvaluateCommand_def s0_def f_def s1_def Let_def split: prod.splits)
  have "\<not> need_server_response s1"
    using assms(2) by (simp add: s' ui_finish_fields)
  then have wp: "write_prompt f"
    using ui_chain_write_prompt [of s0 E line] by (simp add: f_def s1_def s0_def)
  have sg: "signal_server_can_continue f = requests_resumption line"
    by (simp add: f_def ui_chain_signal)
  have sw: "\<not> server_will_continue s1"
    using assms(3) by (simp add: s1_def ui_chain_swc s0_def)
  obtain t where t: "cout s1 = cout s @ t"
    using ui_chain_prefix [of s0 E line] by (auto simp add: s1_def s0_def prefix_def)
  have "\<exists>text. cout s' = cout s @ text @ [NL] @ ''sudb (''
           @ (if requests_resumption line \<or> \<not> IsStopped E (server s') then ''running'' else ''stopped'')
           @ ''): ''"
    by (rule exI [of _ "t @ (if is_legal_command f then [] else [NL] @ ''Illegal command'' @ [NL])"])
       (simp add: s' ui_finish_cout [OF sw] ui_finish_fields wp sg t)
  then show ?thesis by (simp add: s' ui_finish_fields)
qed

theorem console_prompt_witness:
  "EvaluateCommand demo_engine ''c'' console_start
     = (True, console_start\<lparr>server_can_continue := True, trace := [notify_one],
              cout := [NL] @ ''sudb (running): ''\<rparr>)
   \<and> IsStopped demo_engine (server console_start)
   \<and> (\<exists>text. [NL] @ ''sudb (running): '' = cout console_start @ text @ [NL] @ ''sudb (running): '')"
proof -
  have e: "EvaluateCommand demo_engine ''c'' console_start
     = (True, console_start\<lparr>server_can_continue := True, trace := [notify_one],
              cout := [NL] @ ''sudb (running): ''\<rparr>)"
    by code_simp
  have r: "requests_resumption ''c''" by code_simp
  have n: "\<not> need_server_response (console_start\<lparr>server_can_continue := True, trace := [notify_one],
              cout := [NL] @ ''sudb (running): ''\<rparr>)"
    by (simp add: console_start_def)
  have w: "\<not> server_will_continue console_start"
    by (simp add: console_start_def)
  show ?thesis
    using console_prompt_after_local_command [OF e n w] e r
    by (simp add: console_start_def demo_engine_def demo_stopped_def)
qed

subsection \<open>The port of the wire front-end\<close>
















subsection \<open>Adding a break point over the wire\<close>




subsection \<open>A new request while one is pending\<close>

lemma cmd_brk_slots:
  "cmd_brk E m s = Inr s' \<Longrightarrow>
     server_response s' = server_response s \<and> process_server_response s' = process_server_response s
     \<and> io_posted s' = io_posted s \<and> variables_to_send s' = variables_to_send s"
  by (auto simp add: cmd_brk_def Let_def split: if_splits sum.splits prod.splits)

lemma cmd_brk_del_slots:
  "cmd_brk_del E m s = Inr s' \<Longrightarrow>
     server_response s' = server_response s \<and> process_server_response s' = process_server_response s
     \<and> io_posted s' = io_posted s \<and> variables_to_send s' = variables_to_send s"
  by (auto simp add: cmd_brk_del_def Let_def split: if_splits sum.splits prod.splits)

lemma cmd_frame_slots:
  "cmd_frame E m s = Inr s' \<Longrightarrow>
     server_response s' = server_response s \<and> process_server_response s' = process_server_response s
     \<and> io_posted s' = io_posted s \<and> variables_to_send s' = variables_to_send s"
  by (auto simp add: cmd_frame_def Let_def split: if_splits sum.splits prod.splits)

lemma other_slots [simp]:
  "server_response (cmd_exit E s) = server_response s"
  "server_response (cmd_where E s) = server_response s"
  "server_response (cmd_thr_lst s) = server_response s"
  "process_server_response (cmd_exit E s) = process_server_response s"
  "process_server_response (cmd_where E s) = process_server_response s"
  "process_server_response (cmd_thr_lst s) = process_server_response s"
  "io_posted (cmd_exit E s) = io_posted s"
  "io_posted (cmd_where E s) = io_posted s"
  "io_posted (cmd_thr_lst s) = io_posted s"
  "variables_to_send (cmd_exit E s) = variables_to_send s"
  "variables_to_send (cmd_where E s) = variables_to_send s"
  "variables_to_send (cmd_thr_lst s) = variables_to_send s"
  by (simp_all add: cmd_exit_def cmd_where_def cmd_thr_lst_def Let_def)

lemma request_overwrites:
  "request t a (s\<lparr>server_response := r, process_server_response := p\<rparr>) = request t a s"
  "request t a (s\<lparr>server_response := r, process_server_response := p, expression_to_eval := x\<rparr>)
     = request t a (s\<lparr>expression_to_eval := x\<rparr>)"
  by (simp_all add: request_def emit_def)

text \<open>
  Claim C1, as amended. There is one slot for the pending interpreter task, so at most one
  task is pending; the dispatcher has no busy state. On the wire a command that posts a
  task when none is pending does exactly the same when one is pending: it is accepted,
  nothing more is logged, and its task takes the place of the pending one. On the console
  every command begins by dropping the pending request, so its outcome does not depend
  on whether one was pending.
\<close>

theorem new_request_replaces_pending:
  "(evaluateCommand E cmd (s\<lparr>server_response := None, process_server_response := None\<rparr>) = Inr s'
      \<longrightarrow> server_response s' \<noteq> None \<longrightarrow> evaluateCommand E cmd s = Inr s')
   \<and> EvaluateCommand E' line (u\<lparr>need_server_response := b, need_what_from_server := w,
                                  expression_to_evaluate := x\<rparr>)
       = EvaluateCommand E' line u"
proof
  let ?s0 = "s\<lparr>server_response := None, process_server_response := None\<rparr>"
  show "evaluateCommand E cmd ?s0 = Inr s'
      \<longrightarrow> server_response s' \<noteq> None \<longrightarrow> evaluateCommand E cmd s = Inr s'"
    by (rule evaluateCommand_cases)
       (auto simp add: request_overwrites cmd_var_instance_def
          dest: cmd_brk_slots cmd_brk_del_slots cmd_frame_slots)
  show "EvaluateCommand E' line (u\<lparr>need_server_response := b, need_what_from_server := w,
                                  expression_to_evaluate := x\<rparr>)
       = EvaluateCommand E' line u"
    by (simp add: EvaluateCommand_def)
qed

theorem new_request_replaces_pending_witness:
  "evaluateCommand demo_engine ''v g''
     (rdip_start\<lparr>server_response := Some (bind_getVariables True),
                  process_server_response := Some (bind_sendVariables ''local'')\<rparr>)
   = Inr (rdip_start\<lparr>trace := [notify_all], server_response := Some (bind_getVariables False),
                       process_server_response := Some (bind_sendVariables ''global'')\<rparr>)"
proof -
  let ?s = "rdip_start\<lparr>server_response := Some (bind_getVariables True),
                  process_server_response := Some (bind_sendVariables ''local'')\<rparr>"
  let ?s' = "rdip_start\<lparr>trace := [notify_all], server_response := Some (bind_getVariables False),
                       process_server_response := Some (bind_sendVariables ''global'')\<rparr>"
  have 1: "evaluateCommand demo_engine ''v g''
             (?s\<lparr>server_response := None, process_server_response := None\<rparr>) = Inr ?s'"
    by code_simp
  have 2: "server_response ?s' \<noteq> None" by simp
  from new_request_replaces_pending [of demo_engine "''v g''" ?s ?s'] 1 2
  show ?thesis by blast
qed

text \<open>
  Claim C1 as stated fails. On the wire, \<^verbatim>\<open>v l\<close> leaves its task pending, and \<^verbatim>\<open>v g\<close>
  issued before the interpreter thread has run it is not refused: nothing is logged and
  the pending task is replaced. On the console, \<^verbatim>\<open>v g\<close> after \<^verbatim>\<open>v l\<close> is a legal command
  that prints nothing, and the request for the local variables is replaced.
\<close>

theorem busy_rejection_counterexample:
  "evaluateCommand demo_engine ''v l'' rdip_start
     = Inr (rdip_start\<lparr>trace := [notify_all], server_response := Some (bind_getVariables True),
                         process_server_response := Some (bind_sendVariables ''local'')\<rparr>)
   \<and> evaluateCommand demo_engine ''v g''
       (rdip_start\<lparr>trace := [notify_all], server_response := Some (bind_getVariables True),
                    process_server_response := Some (bind_sendVariables ''local'')\<rparr>)
     = Inr (rdip_start\<lparr>trace := [notify_all, notify_all],
                         server_response := Some (bind_getVariables False),
                         process_server_response := Some (bind_sendVariables ''global'')\<rparr>)
   \<and> EvaluateCommand demo_engine ''v l'' console_start
     = (True, console_start\<lparr>trace := [notify_one], need_server_response := True,
                              need_what_from_server := NEED_LOCAL_VARS\<rparr>)
   \<and> EvaluateCommand demo_engine ''v g''
       (console_start\<lparr>trace := [notify_one], need_server_response := True,
                       need_what_from_server := NEED_LOCAL_VARS\<rparr>)
     = (True, console_start\<lparr>trace := [notify_one, notify_one], need_server_response := True,
                              need_what_from_server := NEED_GLOBAL_VARS\<rparr>)"
  by code_simp

subsection \<open>Arguments that are not numbers\<close>






subsection \<open>The rendezvous loop of the wire front-end\<close>




lemma perform_getVariables_trace:
  "trace (perform E (bind_getVariables local) s)
     = trace s @ [if local then Call_GetLocalVariables else Call_GetGlobalVariables]"
  by (simp add: getVariables_def)




subsection \<open>XML escaping\<close>






















subsection \<open>The buffer of variables\<close>

lemma evaluateCommand_settled:
  "evaluateCommand E cmd s = Inr s' \<Longrightarrow> settled s \<Longrightarrow> settled s'"
proof -
  have "evaluateCommand E cmd s = Inr s' \<longrightarrow> settled s \<longrightarrow> settled s'"
    by (rule evaluateCommand_cases)
       (auto simp add: settled_def cmd_var_instance_def
          dest!: cmd_brk_slots cmd_brk_del_slots cmd_frame_slots)
  then show "evaluateCommand E cmd s = Inr s' \<Longrightarrow> settled s \<Longrightarrow> settled s'" by blast
qed

lemma evaluateCommands_settled:
  "evaluateCommands E cmds s = Inr s' \<Longrightarrow> settled s \<Longrightarrow> settled s'"
proof (induction cmds arbitrary: s)
  case Nil
  then show ?case by simp
next
  case (Cons c cmds)
  then show ?case
    by (auto split: sum.splits dest: evaluateCommand_settled)
qed

lemma handleCommand_settled:
  "handleCommand E str s = Inr s' \<Longrightarrow> settled s \<Longrightarrow> settled s'"
  unfolding handleCommand_def
  by (erule evaluateCommands_settled) (simp add: settled_def)

lemma sendVariables_result:
  "socket (sendVariables kind s) = socket s @ ''<variables>'' @ [NL]
       @ concat (map (variable_element kind) (variables_to_send s)) @ ''</variables>'' @ [NL]"
  "variables_to_send (sendVariables kind s) = []"
  "io_posted (sendVariables kind s) = io_posted s"
  "server_response (sendVariables kind s) = server_response s"
  "process_server_response (sendVariables kind s) = process_server_response s"
  by (simp_all add: sendVariables_def Let_def)

lemma io_service_run_settled:
  "io_service_run E hs s = Inr s' \<Longrightarrow> settled s \<Longrightarrow> settled s'"
proof (induction hs arbitrary: s)
  case Nil
  then show ?case by simp
next
  case (Cons h hs)
  show ?case
  proof (cases h)
    case (Line str)
    with Cons show ?thesis
      by (auto split: sum.splits dest: handleCommand_settled)
  next
    case (Command cmd)
    with Cons show ?thesis
      by (auto split: sum.splits dest: evaluateCommand_settled)
  next
    case Posted
    show ?thesis
    proof (cases "io_posted s")
      case Nil
      with Cons Posted show ?thesis by simp
    next
      case (Cons a q)
      obtain kind where a: "a = bind_sendVariables kind" by (cases a)
      have "settled (run_handler a (s\<lparr>io_posted := q\<rparr>))"
        using Cons.prems(2) by (simp add: a settled_def sendVariables_result)
      with Cons.IH [of "run_handler a (s\<lparr>io_posted := q\<rparr>)"] Cons.prems(1) Posted Cons
      show ?thesis by simp
    qed
  qed
qed

lemma perform_fields:
  "process_server_response (perform E t s) = process_server_response s"
  "io_posted (perform E t s) = io_posted s"
  by (cases t; simp add: getVariables_def getInstanceVariables_def evalExpression_def Let_def
        split: prod.split)+

lemma serve_response_settled: "settled s \<Longrightarrow> settled (serve_response E s)"
  by (auto simp add: settled_def serve_response_def Let_def perform_fields split: option.splits)

lemma wait_loop_settled:
  "settled s \<Longrightarrow> wait_loop E ws s = Waiting s' \<or> wait_loop E ws s = Returned s' \<Longrightarrow> settled s'"
proof (induction ws arbitrary: s)
  case Nil
  then show ?case
    by (auto simp add: settled_def [of "Log _ _"] split: if_splits
          dest: serve_response_settled [of s E])
       (simp_all add: settled_def)
next
  case (Cons w ws)
  show ?case
  proof (cases "server_can_continue s")
    case True
    with Cons.prems show ?thesis by (auto simp add: settled_def)
  next
    case False
    with Cons.prems(2) obtain s2 where r: "io_service_run E w (serve_response E s) = Inr s2"
      and l: "wait_loop E ws s2 = Waiting s' \<or> wait_loop E ws s2 = Returned s'"
      by (auto split: sum.splits)
    have "settled s2"
      using r serve_response_settled [OF Cons.prems(1)] by (rule io_service_run_settled)
    then show ?thesis using l by (rule Cons.IH)
  qed
qed

lemma perform_overwrites:
  "variables_to_send (perform E t (s\<lparr>variables_to_send := old\<rparr>)) = variables_to_send (perform E t s)"
  by (cases t; simp add: getVariables_def getInstanceVariables_def evalExpression_def Let_def
        split: prod.split)

text \<open>
  Claim C10, as amended. A \<^verbatim>\<open><variables>\<close> reply holds exactly what the buffer holds when
  the reply is written: what the most recent completed interpreter task produced, or
  nothing when an earlier reply has sent that already; nothing is carried over from
  earlier tasks. The producers on the interpreter side overwrite the buffer, whatever it
  held; the evaluation of an empty expression leaves it empty and does not call the
  engine; the sender clears it after writing. So in every execution of the rendezvous
  loop the buffer is empty whenever no posted reply is waiting to be run.
\<close>

theorem variables_buffer:
  "variables_to_send (perform E t (s\<lparr>variables_to_send := old\<rparr>)) = variables_to_send (perform E t s)
   \<and> variables_to_send (getVariables E local s)
       = (if local then GetLocalVariables E (server s) else GetGlobalVariables E (server s))
   \<and> variables_to_send (getInstanceVariables E object_id s)
       = GetInstanceVariables E object_id (server s)
   \<and> (expression_to_eval s = [] \<longrightarrow> evalExpression E s = s\<lparr>variables_to_send := []\<rparr>)
   \<and> (expression_to_eval s \<noteq> [] \<longrightarrow>
        variables_to_send (evalExpression E s)
          = [fst (EvaluateExpression E (expression_to_eval s) (server s))]
        \<and> trace (evalExpression E s) = trace s @ [Call_EvaluateExpression (expression_to_eval s)])
   \<and> socket (sendVariables kind s) = socket s @ ''<variables>'' @ [NL]
         @ concat (map (variable_element kind) (variables_to_send s)) @ ''</variables>'' @ [NL]
   \<and> variables_to_send (sendVariables kind s) = []
   \<and> (settled s \<longrightarrow> wait_loop E ws s = Waiting s' \<or> wait_loop E ws s = Returned s' \<longrightarrow>
        settled s')"
proof (intro conjI impI)
  show "variables_to_send (perform E t (s\<lparr>variables_to_send := old\<rparr>))
      = variables_to_send (perform E t s)"
    by (rule perform_overwrites)
  show "variables_to_send (getVariables E local s)
       = (if local then GetLocalVariables E (server s) else GetGlobalVariables E (server s))"
    by (simp add: getVariables_def)
  show "variables_to_send (getInstanceVariables E object_id s)
       = GetInstanceVariables E object_id (server s)"
    by (simp add: getInstanceVariables_def)
  show "socket (sendVariables kind s) = socket s @ ''<variables>'' @ [NL]
         @ concat (map (variable_element kind) (variables_to_send s)) @ ''</variables>'' @ [NL]"
    by (rule sendVariables_result)
  show "variables_to_send (sendVariables kind s) = []"
    by (rule sendVariables_result)
next
  assume "expression_to_eval s = []"
  then show "evalExpression E s = s\<lparr>variables_to_send := []\<rparr>"
    by (simp add: evalExpression_def)
next
  assume e: "expression_to_eval s \<noteq> []"
  then show "variables_to_send (evalExpression E s)
          = [fst (EvaluateExpression E (expression_to_eval s) (server s))]"
    by (simp add: evalExpression_def Let_def split: prod.split)
  from e show "trace (evalExpression E s) = trace s @ [Call_EvaluateExpression (expression_to_eval s)]"
    by (simp add: evalExpression_def Let_def split: prod.split)
next
  assume "settled s" and "wait_loop E ws s = Waiting s' \<or> wait_loop E ws s = Returned s'"
  then show "settled s'" by (rule wait_loop_settled)
qed

theorem variables_buffer_witness:
  "evalExpression demo_engine rdip_start = rdip_start
   \<and> variables_to_send (evalExpression demo_engine (rdip_start\<lparr>expression_to_eval := ''1+1''\<rparr>))
       = [demo_var ''eval'' ''1+1'']
   \<and> settled (rdip_start\<lparr>trace := [notify_all, Call_GetLocalVariables],
         process_server_response := Some (bind_sendVariables ''local''),
         variables_to_send := [demo_var ''x'' ''1''],
         io_posted := [bind_sendVariables ''local'']\<rparr>)"
proof -
  let ?w = "rdip_start\<lparr>trace := [notify_all, Call_GetLocalVariables],
         process_server_response := Some (bind_sendVariables ''local''),
         variables_to_send := [demo_var ''x'' ''1''],
         io_posted := [bind_sendVariables ''local'']\<rparr>"
  let ?x = "rdip_start\<lparr>expression_to_eval := ''1+1''\<rparr>"
  have 1: "expression_to_eval rdip_start = []" "variables_to_send rdip_start = []"
    "expression_to_eval ?x \<noteq> []" "server ?x = demo_stopped"
    by (simp_all add: rdip_start_def)
  have 2: "settled rdip_start" by (simp add: settled_def rdip_start_def)
  have 3: "wait_loop demo_engine [[Command ''v l'']] rdip_start = Waiting ?w" by code_simp
  have 4: "fst (EvaluateExpression demo_engine ''1+1'' demo_stopped) = demo_var ''eval'' ''1+1''"
    by (simp add: demo_engine_def)
  have 5: "rdip_start\<lparr>variables_to_send := []\<rparr> = rdip_start" by (simp add: rdip_start_def)
  from variables_buffer [where E = demo_engine and s = rdip_start and ws = "[[Command ''v l'']]" and s' = ?w] 1 2 3 5
  have a: "evalExpression demo_engine rdip_start = rdip_start" and c: "settled ?w"
    by simp_all
  from variables_buffer [where E = demo_engine and s = ?x] 1 4
  have b: "variables_to_send (evalExpression demo_engine ?x) = [demo_var ''eval'' ''1+1'']"
    by simp
  from a b c show ?thesis by simp
qed

text \<open>
  Claim C10 as stated fails. The client sends the line \<^verbatim>\<open>v l;w;v g\<close> at a break; the
  interpreter thread collects the local variables while the handler of the line writes
  the frames, and the global ones when the handler has reached \<^verbatim>\<open>v g\<close>; then the two
  posted replies are run. The first reply holds the global variables, and the second,
  written after the task that collected them, holds nothing.
\<close>

theorem second_reply_empty:
  "map_option trace (blocked (WaitForContinue demo_engine
        [[Command ''v l''], [Command ''w'', Command ''v g''], [Posted, Posted]] rdip_start))
     = Some [notify_all, Call_GetLocalVariables, notify_all, Call_GetGlobalVariables]
   \<and> map_option socket (blocked (WaitForContinue demo_engine
        [[Command ''v l''], [Command ''w'', Command ''v g''], [Posted, Posted]] rdip_start))
     = Some (''<frames>'' @ [NL] @ ''<frame no='' @ [DQ] @ ''0'' @ [DQ] @ '' file='' @ [DQ]
          @ ''/x.rb'' @ [DQ] @ '' line='' @ [DQ] @ ''10'' @ [DQ] @ '' current='' @ [DQ] @ ''yes''
          @ [DQ] @ ''/>'' @ ''</frames>'' @ [NL]
          @ ''<variables>'' @ [NL]
          @ ''<variable name='' @ [DQ] @ ''$g'' @ [DQ] @ '' kind='' @ [DQ] @ ''local'' @ [DQ]
          @ '' value='' @ [DQ] @ ''a&lt;b'' @ [DQ] @ '' type='' @ [DQ] @ ''String'' @ [DQ]
          @ '' hasChildren='' @ [DQ] @ ''false'' @ [DQ] @ '' objectId='' @ [DQ] @ ''0'' @ [DQ]
          @ ''/>'' @ [NL]
          @ ''</variables>'' @ [NL]
          @ ''<variables>'' @ [NL] @ ''</variables>'' @ [NL])"
  by code_simp

subsection \<open>The patterns of the dispatchers\<close>













lemma head_lits [simp]:
  "head_lit reg_brk_list = Some CHR ''b''"
  "head_lit reg_brk_del = Some CHR ''d''"
  "head_lit reg_brk = Some CHR ''b''"
  "head_lit reg_cont = Some CHR ''c''"
  "head_lit reg_step = Some CHR ''s''"
  "head_lit reg_next = Some CHR ''n''"
  "head_lit reg_help = Some CHR ''h''"
  "head_lit reg_up = Some CHR ''u''"
  "head_lit reg_down = Some CHR ''d''"
  "head_lit reg_where = Some CHR ''w''"
  "head_lit ui_reg_frame = Some CHR ''f''"
  "head_lit reg_list = Some CHR ''l''"
  "head_lit reg_eval = Some CHR ''p''"
  "head_lit reg_var = Some CHR ''v''"
  "head_lit reg_start = Some CHR ''s''"
  "head_lit reg_exit = Some CHR ''e''"
  "head_lit reg_thr_lst = Some CHR ''t''"
  "head_lit reg_frame = Some CHR ''f''"
  "head_lit reg_finish = Some CHR ''f''"
  "head_lit reg_var_local = Some CHR ''v''"
  "head_lit reg_var_global = Some CHR ''v''"
  "head_lit reg_var_instance = Some CHR ''v''"
  by (simp_all add: reg_brk_list_def reg_brk_del_def reg_brk_def reg_cont_def reg_step_def reg_next_def reg_help_def reg_up_def reg_down_def reg_where_def ui_reg_frame_def reg_list_def reg_eval_def reg_var_def reg_start_def reg_exit_def reg_thr_lst_def reg_frame_def reg_finish_def reg_var_local_def reg_var_global_def reg_var_instance_def
        lit_def chr_def sp_def)
























end
